theory Spec2Isabelle
  imports Complex_Main "HOL-Library.Sublist"
begin

section \<open>Python values\<close>

text \<open>
  The handler works on decoded JSON throughout: the job input, the engine's replies and
  the frames of the streaming connection. A decoded value is one of Python's \<open>None\<close>,
  \<open>bool\<close>, \<open>int\<close>, \<open>float\<close>, \<open>str\<close>, \<open>list\<close> and \<open>dict\<close> (keys are strings, in
  insertion order). \<open>JFloat\<close> carries the exact value of a finite double; the
  non-finite doubles are not represented.
\<close>

datatype json =
    JNull
  | JBool bool
  | JInt int
  | JFloat real
  | JStr string
  | JList "json list"
  | JDict "(string \<times> json) list"

text \<open>Truth value of a Python object, as \<open>if x\<close> and \<open>not x\<close> take it.\<close>

fun py_truthy :: "json \<Rightarrow> bool" where
  "py_truthy JNull = False"
| "py_truthy (JBool b) = b"
| "py_truthy (JInt i) = (i \<noteq> 0)"
| "py_truthy (JFloat r) = (r \<noteq> 0)"
| "py_truthy (JStr s) = (s \<noteq> [])"
| "py_truthy (JList xs) = (xs \<noteq> [])"
| "py_truthy (JDict kvs) = (kvs \<noteq> [])"

text \<open>The numeric value of \<open>bool\<close>, \<open>int\<close> and \<open>float\<close>, which Python compares across types.\<close>

fun py_number :: "json \<Rightarrow> real option" where
  "py_number (JBool b) = Some (if b then 1 else 0)"
| "py_number (JInt i) = Some (of_int i)"
| "py_number (JFloat r) = Some r"
| "py_number _ = None"

text \<open>Python's \<open>==\<close> on decoded JSON.\<close>

fun py_eq :: "json \<Rightarrow> json \<Rightarrow> bool" where
  "py_eq JNull b = (b = JNull)"
| "py_eq (JBool x) b = (py_number b = Some (if x then 1 else 0))"
| "py_eq (JInt x) b = (py_number b = Some (of_int x))"
| "py_eq (JFloat x) b = (py_number b = Some x)"
| "py_eq (JStr x) b = (b = JStr x)"
| "py_eq (JList xs) b =
     (case b of JList ys \<Rightarrow> list_all2 py_eq xs ys | _ \<Rightarrow> False)"
| "py_eq (JDict xs) b =
     (case b of JDict ys \<Rightarrow>
        set (map fst xs) = set (map fst ys) \<and>
        (\<forall>kv \<in> set xs. case map_of ys (fst kv) of Some w \<Rightarrow> py_eq (snd kv) w | None \<Rightarrow> False)
      | _ \<Rightarrow> False)"

text \<open>Decimal rendering of integers, as \<open>str\<close> and f-strings give it.\<close>

definition digit_char :: "nat \<Rightarrow> char" where
  "digit_char d = ''0123456789'' ! d"

function str_nat :: "nat \<Rightarrow> string" where
  "str_nat n = (if n < 10 then [digit_char n] else str_nat (n div 10) @ [digit_char (n mod 10)])"
  by pat_completeness auto
termination
  by (relation "measure id") auto

declare str_nat.simps [simp del]

definition str_int :: "int \<Rightarrow> string" where
  "str_int i = (if i < 0 then CHR ''-'' # str_nat (nat (- i)) else str_nat (nat i))"

section \<open>Exceptions\<close>

text \<open>
  The exception classes the handler distinguishes, with the text \<open>str(e)\<close> gives.
  \<open>WebSocketTimeoutException\<close> and \<open>WebSocketConnectionClosedException\<close> are
  subclasses of \<open>WebSocketException\<close>; \<open>json.JSONDecodeError\<close> is a subclass of
  \<open>ValueError\<close>; \<open>FileNotFoundError\<close> is a subclass of \<open>OSError\<close>, which here also
  stands for \<open>ConnectionRefusedError\<close> and \<open>socket.timeout\<close>; every class is a
  subclass of \<open>Exception\<close>.
\<close>

datatype exn_class =
    WebSocketException
  | WebSocketTimeoutException
  | WebSocketConnectionClosedException
  | RequestException
  | ValueError
  | JSONDecodeError
  | KeyError
  | TypeError
  | AttributeError
  | OverflowError
  | OSError
  | FileNotFoundError
  | OtherException

datatype exn = Exn exn_class string

fun exn_cls :: "exn \<Rightarrow> exn_class" where
  "exn_cls (Exn c m) = c"

fun exn_str :: "exn \<Rightarrow> string" where
  "exn_str (Exn c m) = m"

definition is_websocket_exception :: "exn \<Rightarrow> bool" where
  "is_websocket_exception e =
     (exn_cls e \<in> {WebSocketException, WebSocketTimeoutException, WebSocketConnectionClosedException})"

definition is_value_error :: "exn \<Rightarrow> bool" where
  "is_value_error e = (exn_cls e \<in> {ValueError, JSONDecodeError})"

definition is_os_error :: "exn \<Rightarrow> bool" where
  "is_os_error e = (exn_cls e \<in> {OSError, FileNotFoundError})"

section \<open>The environment of one job\<close>

text \<open>Replies of the outside world are values of these types.\<close>

datatype download_reply =
    Download_response int "char list"   \<comment> \<open>HTTP status and body\<close>
  | Download_timeout                    \<comment> \<open>\<open>asyncio.TimeoutError\<close>\<close>
  | Download_exception string           \<comment> \<open>any other exception, with its text\<close>

datatype http_reply =
    Http_response int string            \<comment> \<open>status code and body text\<close>
  | Http_exception string               \<comment> \<open>\<open>requests.RequestException\<close> raised by the call\<close>

datatype connect_reply =
    Connected
  | Connect_failed exn

datatype view_reply =
    View_content "char list"
  | View_failed                         \<comment> \<open>timeout or \<open>requests.RequestException\<close>\<close>

datatype upload_reply =
    Uploaded string
  | Upload_failed string

text \<open>One reconnect attempt as the world answers it: the HTTP probe, then the connect.\<close>

record attempt =
  http_reachable :: bool
  connect_result :: connect_reply

text \<open>
  What one call of \<open>ws.recv()\<close> gives: a text frame, a binary frame, or an exception.
  With the exception come the world's answers to the reconnect attempts that follow it,
  by attempt number; they are read only when the exception is a closed connection.
\<close>

datatype recv =
    Recv_text string
  | Recv_binary
  | Recv_raise exn "nat \<Rightarrow> attempt"

record env =
  time_ms :: int                                  \<comment> \<open>\<open>int(time.time() * 1000)\<close>\<close>
  interp_text :: "exn_class \<Rightarrow> json \<Rightarrow> string"    \<comment> \<open>text of an interpreter-raised exception\<close>
  int_of_str :: "string \<Rightarrow> int option"            \<comment> \<open>\<open>int(s)\<close>; \<open>None\<close> is \<open>ValueError\<close>\<close>
  float_of :: "json \<Rightarrow> exn + real"                \<comment> \<open>\<open>float(x)\<close>\<close>
  py_repr :: "json \<Rightarrow> string"                     \<comment> \<open>\<open>str(x)\<close> of floats, lists and dicts\<close>
  json_loads :: "string \<Rightarrow> json option"           \<comment> \<open>\<open>None\<close> is \<open>JSONDecodeError\<close>\<close>
  json_dumps :: "json \<Rightarrow> string"
  uuid_job :: string                              \<comment> \<open>\<open>str(uuid.uuid4())\<close>, first call\<close>
  uuid_client :: string                           \<comment> \<open>\<open>str(uuid.uuid4())\<close>, second call\<close>
  urlparse_path :: "string \<Rightarrow> exn + string"       \<comment> \<open>\<open>urllib.parse.urlparse(url).path\<close>\<close>
  server_poll :: "nat \<Rightarrow> bool"                    \<comment> \<open>poll \<open>i\<close> of the liveness check answered 200\<close>
  download :: "string \<Rightarrow> download_reply"
  workflow_template_path :: string
  template_file :: "exn + string"                 \<comment> \<open>opening and reading the template\<close>
  ws_connect :: connect_reply
  post_prompt :: "json \<Rightarrow> http_reply"
  recvs :: "recv list"                            \<comment> \<open>the frames, in order of arrival\<close>
  history_reply :: "json \<Rightarrow> http_reply"
  view :: "json \<Rightarrow> json \<Rightarrow> json \<Rightarrow> view_reply"
  bucket_endpoint_url :: bool                     \<comment> \<open>\<open>BUCKET_ENDPOINT_URL\<close> is set\<close>
  upload_image :: "string \<Rightarrow> char list \<Rightarrow> upload_reply"
  upload_file :: "string \<Rightarrow> char list \<Rightarrow> upload_reply"
  b64encode :: "char list \<Rightarrow> string"
  remove_ok :: "string \<Rightarrow> bool"                   \<comment> \<open>\<open>os.remove\<close> of the path succeeds\<close>
  websocket_reconnect_attempts :: int
  websocket_reconnect_delay_s :: int

text \<open>\<open>str(x)\<close>, which an f-string applies to its fields.\<close>

fun py_str :: "env \<Rightarrow> json \<Rightarrow> string" where
  "py_str E (JStr s) = s"
| "py_str E JNull = ''None''"
| "py_str E (JBool b) = (if b then ''True'' else ''False'')"
| "py_str E (JInt i) = str_int i"
| "py_str E v = py_repr E v"

definition raise_interp :: "env \<Rightarrow> exn_class \<Rightarrow> json \<Rightarrow> exn + 'a" where
  "raise_interp E c v = Inl (Exn c (interp_text E c v))"

text \<open>\<open>d.get(k, default)\<close>: only a dict has the method.\<close>

fun py_get :: "env \<Rightarrow> json \<Rightarrow> string \<Rightarrow> json \<Rightarrow> exn + json" where
  "py_get E (JDict kvs) k d = Inr (case map_of kvs k of Some v \<Rightarrow> v | None \<Rightarrow> d)"
| "py_get E v k d = raise_interp E AttributeError v"

text \<open>
  Sequencing of calls that may raise: the first exception ends the sequence, as it leaves
  the enclosing block in the source.
\<close>

fun and_then :: "exn + 'a \<Rightarrow> ('a \<Rightarrow> exn + 'b) \<Rightarrow> exn + 'b" where
  "and_then (Inl e) f = Inl e"
| "and_then (Inr x) f = f x"

text \<open>\<open>int(x)\<close>: a float is truncated toward zero.\<close>

fun py_int :: "env \<Rightarrow> json \<Rightarrow> exn + int" where
  "py_int E (JBool b) = Inr (if b then 1 else 0)"
| "py_int E (JInt i) = Inr i"
| "py_int E (JFloat r) = Inr (if 0 \<le> r then \<lfloor>r\<rfloor> else \<lceil>r\<rceil>)"
| "py_int E (JStr s) =
     (case int_of_str E s of Some i \<Rightarrow> Inr i | None \<Rightarrow> raise_interp E ValueError (JStr s))"
| "py_int E v = raise_interp E TypeError v"

section \<open>Input validation\<close>

record validated =
  reference_image_url :: json
  dance_video_url :: json
  prompt :: json
  negative_prompt :: json
  width :: int
  height :: int
  steps :: int
  cfg :: real
  seed :: int

text \<open>
  The numeric conversions of \<open>validate_input\<close>, in the order of the \<open>try\<close> block: the
  first one that raises ends the block.
\<close>

definition convert_numeric ::
  "env \<Rightarrow> json \<Rightarrow> json \<Rightarrow> json \<Rightarrow> json \<Rightarrow> json \<Rightarrow> exn + (int \<times> int \<times> int \<times> real \<times> int)" where
  "convert_numeric E w h st c sd =
     and_then (py_int E w) (\<lambda>w'.
     and_then (py_int E h) (\<lambda>h'.
     and_then (py_int E st) (\<lambda>st'.
     and_then (float_of E c) (\<lambda>c'.
     and_then (if \<not> py_eq sd (JInt (- 1)) then py_int E sd else Inr (time_ms E mod 2 ^ 31)) (\<lambda>sd'.
     Inr (w', h', st', c', sd'))))))"

text \<open>The adjustment of one dimension to the workflow's grid.\<close>

definition adjust_dim :: "int \<Rightarrow> int" where
  "adjust_dim d = (if d mod 32 \<noteq> 0 then (d div 32) * 32 else d)"

text \<open>
  \<open>validate_input\<close> returns the pair \<open>(validated_data, error_message)\<close> with exactly one
  component \<open>None\<close>: \<open>Inr (Inl msg)\<close> is \<open>(None, msg)\<close>, \<open>Inr (Inr v)\<close> is \<open>(v, None)\<close>,
  and \<open>Inl e\<close> is an exception leaving the function.
\<close>

definition validate_numeric ::
  "env \<Rightarrow> json \<Rightarrow> json \<Rightarrow> json \<Rightarrow> json \<Rightarrow> json \<Rightarrow> exn + (string + validated)" where
  "validate_numeric E job_input reference_image dance_video prompt' negative =
     and_then (py_get E job_input ''width'' (JInt 512)) (\<lambda>w.
     and_then (py_get E job_input ''height'' (JInt 896)) (\<lambda>h.
     and_then (py_get E job_input ''steps'' (JInt 6)) (\<lambda>st.
     and_then (py_get E job_input ''cfg'' (JFloat 1)) (\<lambda>c.
     and_then (py_get E job_input ''seed'' (JInt (- 1))) (\<lambda>sd.
     (case convert_numeric E w h st c sd of
        Inl e \<Rightarrow>
          if exn_cls e \<in> {ValueError, JSONDecodeError, TypeError}
          then Inr (Inl (''Invalid numeric parameter: '' @ exn_str e))
          else Inl e
      | Inr (w', h', st', c', sd') \<Rightarrow>
          Inr (Inr \<lparr>reference_image_url = reference_image, dance_video_url = dance_video,
                    prompt = prompt', negative_prompt = negative,
                    width = adjust_dim w', height = adjust_dim h',
                    steps = st', cfg = c', seed = sd'\<rparr>)))))))"

definition validate_fields :: "env \<Rightarrow> json \<Rightarrow> exn + (string + validated)" where
  "validate_fields E job_input =
     and_then (py_get E job_input ''images'' JNull) (\<lambda>images.
     if \<not> py_truthy images then Inr (Inl ''Missing 'images' parameter'') else
     and_then (py_get E images ''reference_image'' JNull) (\<lambda>reference_image.
     if \<not> py_truthy reference_image then Inr (Inl ''Missing 'reference_image' in images'') else
     and_then (py_get E job_input ''videos'' JNull) (\<lambda>videos.
     if videos = JNull then Inr (Inl ''Missing 'videos' parameter'') else
     and_then (py_get E videos ''dance_video'' (JStr [])) (\<lambda>dance_video.
     and_then (py_get E job_input ''prompt'' JNull) (\<lambda>prompt'.
     if \<not> py_truthy prompt' then Inr (Inl ''Missing 'prompt' parameter'') else
     and_then (py_get E job_input ''negative_prompt'' (JStr [])) (\<lambda>negative.
     validate_numeric E job_input reference_image dance_video prompt' negative))))))"

definition validate_input :: "env \<Rightarrow> json \<Rightarrow> exn + (string + validated)" where
  "validate_input E job_input =
     (if job_input = JNull then Inr (Inl ''Please provide input'') else
      case job_input of
        JStr s \<Rightarrow>
          (case json_loads E s of
             None \<Rightarrow> Inr (Inl ''Invalid JSON format in input'')
           | Some j \<Rightarrow> validate_fields E j)
      | _ \<Rightarrow> validate_fields E job_input)"

section \<open>More of Python on decoded JSON\<close>

text \<open>\<open>k in v\<close>: key membership for a dict, element equality for a list, substring for a string.\<close>

fun py_contains :: "env \<Rightarrow> json \<Rightarrow> json \<Rightarrow> exn + bool" where
  "py_contains E (JDict kvs) k =
     (case k of
        JStr s \<Rightarrow> Inr (s \<in> set (map fst kvs))
      | JList xs \<Rightarrow> raise_interp E TypeError k
      | JDict ys \<Rightarrow> raise_interp E TypeError k
      | _ \<Rightarrow> Inr False)"
| "py_contains E (JList xs) k = Inr (list_ex (\<lambda>x. py_eq x k) xs)"
| "py_contains E (JStr s) k =
     (case k of JStr t \<Rightarrow> Inr (sublist t s) | _ \<Rightarrow> raise_interp E TypeError k)"
| "py_contains E v k = raise_interp E TypeError v"

text \<open>\<open>v[k]\<close> with a string key.\<close>

fun py_index :: "env \<Rightarrow> json \<Rightarrow> string \<Rightarrow> exn + json" where
  "py_index E (JDict kvs) k =
     (case map_of kvs k of Some v \<Rightarrow> Inr v | None \<Rightarrow> raise_interp E KeyError (JStr k))"
| "py_index E v k = raise_interp E TypeError v"

text \<open>\<open>d.get(k, default)\<close> with any decoded value as the key.\<close>

fun py_get_val :: "env \<Rightarrow> json \<Rightarrow> json \<Rightarrow> json \<Rightarrow> exn + json" where
  "py_get_val E (JDict kvs) k d =
     (case k of
        JStr s \<Rightarrow> Inr (case map_of kvs s of Some v \<Rightarrow> v | None \<Rightarrow> d)
      | JList xs \<Rightarrow> raise_interp E TypeError k
      | JDict ys \<Rightarrow> raise_interp E TypeError k
      | _ \<Rightarrow> Inr d)"
| "py_get_val E v k d = raise_interp E AttributeError v"

text \<open>The elements a \<open>for\<close> loop over the value visits (and \<open>len\<close> counts).\<close>

fun py_iter :: "env \<Rightarrow> json \<Rightarrow> exn + json list" where
  "py_iter E (JList xs) = Inr xs"
| "py_iter E (JDict kvs) = Inr (map (\<lambda>kv. JStr (fst kv)) kvs)"
| "py_iter E (JStr s) = Inr (map (\<lambda>c. JStr [c]) s)"
| "py_iter E v = raise_interp E TypeError v"

text \<open>\<open>d.items()\<close> and \<open>d.keys()\<close>: only a dict has them.\<close>

fun py_items :: "env \<Rightarrow> json \<Rightarrow> exn + (string \<times> json) list" where
  "py_items E (JDict kvs) = Inr kvs"
| "py_items E v = raise_interp E AttributeError v"

text \<open>\<open>s.replace(old, new)\<close>: the occurrences of \<open>old\<close>, left to right, not overlapping.\<close>

function str_replace :: "string \<Rightarrow> string \<Rightarrow> string \<Rightarrow> string" where
  "str_replace old new [] = (if old = [] then new else [])"
| "str_replace old new (c # cs) =
     (if old = [] then new @ c # str_replace old new cs
      else if prefix old (c # cs) then new @ str_replace old new (drop (length old) (c # cs))
      else c # str_replace old new cs)"
  by pat_completeness auto
termination
  by (relation "measure (\<lambda>(old, new, s). length s)") auto

text \<open>\<open>sep.join(xs)\<close>.\<close>

fun str_join :: "string \<Rightarrow> string list \<Rightarrow> string" where
  "str_join sep [] = []"
| "str_join sep [x] = x"
| "str_join sep (x # y # ys) = x @ sep @ str_join sep (y # ys)"

text \<open>
  \<open>os.path.splitext(p)[1]\<close>: the extension starts at the last dot of the last path
  component, unless only dots precede it there.
\<close>

definition splitext_ext :: "string \<Rightarrow> string" where
  "splitext_ext p =
     (let b = rev (takeWhile (\<lambda>c. c \<noteq> CHR ''/'') (rev p));
          stem = rev (tl (dropWhile (\<lambda>c. c \<noteq> CHR ''.'') (rev b)))
      in if CHR ''.'' \<in> set b \<and> list_ex (\<lambda>c. c \<noteq> CHR ''.'') stem
         then CHR ''.'' # rev (takeWhile (\<lambda>c. c \<noteq> CHR ''.'') (rev b))
         else [])"

text \<open>\<open>x or default\<close> on strings.\<close>

definition or_default :: "string \<Rightarrow> string \<Rightarrow> string" where
  "or_default s d = (if s \<noteq> [] then s else d)"

section \<open>Observable actions and the input directory\<close>

text \<open>
  The calls the handler makes to the outside world, in the order it makes them. The two
  downloads of one job run concurrently; they are listed in the order their tasks are
  created. The input directory is the set of paths present in it.
\<close>

datatype action =
    Poll                  \<comment> \<open>liveness check: one GET of the root path\<close>
  | Poll_delay            \<comment> \<open>the fixed delay after a poll that was not answered 200\<close>
  | Download string       \<comment> \<open>input acquisition: GET of a media source\<close>
  | Load_template
  | Ws_connect
  | Submit                \<comment> \<open>POST of the job description\<close>
  | Recv                  \<comment> \<open>one blocking receive on the stream\<close>
  | Probe                 \<comment> \<open>HTTP reachability probe before a reconnect attempt\<close>
  | Reconnect             \<comment> \<open>one attempt to re-open the stream\<close>
  | Reconnect_delay       \<comment> \<open>the fixed delay between two reconnect attempts\<close>
  | History               \<comment> \<open>GET of the result manifest\<close>
  | View json             \<comment> \<open>GET of one artifact, by filename\<close>
  | Upload json
  | Ws_close
  | Remove string         \<comment> \<open>\<open>os.remove\<close> of a path\<close>

definition COMFY_INPUT_DIR :: string where
  "COMFY_INPUT_DIR = ''/comfyui/input''"

text \<open>\<open>os.path.join(COMFY_INPUT_DIR, name)\<close>: an absolute \<open>name\<close> replaces the directory.\<close>

definition input_path :: "string \<Rightarrow> string" where
  "input_path name =
     (if name \<noteq> [] \<and> hd name = CHR ''/'' then name else COMFY_INPUT_DIR @ ''/'' @ name)"

section \<open>Input acquisition\<close>

text \<open>
  \<open>download_file_async\<close> returns \<open>(success, error_message)\<close>; the file is written only
  after a 200 reply has been read in full.
\<close>

definition download_file_async ::
  "env \<Rightarrow> string \<Rightarrow> string \<Rightarrow> string \<Rightarrow> string set \<Rightarrow> (bool \<times> string) \<times> string set" where
  "download_file_async E url target_path file_type fs =
     (case download E url of
        Download_response status content \<Rightarrow>
          if status \<noteq> 200
          then ((False, ''HTTP '' @ str_int status @ '' downloading '' @ file_type), fs)
          else ((True, []), insert target_path fs)
      | Download_timeout \<Rightarrow>
          ((False, ''Timeout downloading '' @ file_type @ '' from '' @ url), fs)
      | Download_exception m \<Rightarrow>
          ((False, ''Error downloading '' @ file_type @ '': '' @ m), fs))"

text \<open>
  \<open>urllib.parse.urlparse(url).path\<close> of a decoded value: only a string parses. The
  result pairs the URL with its path.
\<close>

definition url_path :: "env \<Rightarrow> json \<Rightarrow> exn + (string \<times> string)" where
  "url_path E u =
     (case u of
        JStr s \<Rightarrow> and_then (urlparse_path E s) (\<lambda>p. Inr (s, p))
      | _ \<Rightarrow> raise_interp E AttributeError u)"

text \<open>The scan of the gathered results: the first failure is the error returned.\<close>

fun first_failure :: "(bool \<times> string) list \<Rightarrow> string option" where
  "first_failure [] = None"
| "first_failure ((ok, err) # rs) = (if \<not> ok then Some err else first_failure rs)"

text \<open>
  \<open>download_inputs_async\<close> returns \<open>(filenames, error_message)\<close>. Both tasks are created
  before either runs, and \<open>gather\<close> runs every task to its end; on a failed download the
  dict returned is empty.
\<close>

definition download_inputs_async ::
  "env \<Rightarrow> validated \<Rightarrow> json \<Rightarrow> string set \<Rightarrow>
     (exn + ((string \<times> string) list \<times> string option)) \<times> string set \<times> action list" where
  "download_inputs_async E validated_data job_id fs =
     (case url_path E (reference_image_url validated_data) of
        Inl e \<Rightarrow> (Inl e, fs, [])
      | Inr (ref_url, ref_p) \<Rightarrow>
         (let ref_ext = or_default (splitext_ext ref_p) ''.png'';
              ref_filename = ''ref_'' @ py_str E job_id @ ref_ext;
              video_url = dance_video_url validated_data
          in if py_truthy video_url then
               (case url_path E video_url of
                  Inl e \<Rightarrow> (Inl e, fs, [])
                | Inr (video_u, video_p) \<Rightarrow>
                   (let video_ext = or_default (splitext_ext video_p) ''.mp4'';
                        video_filename = ''dance_'' @ py_str E job_id @ video_ext;
                        (r1, fs1) = download_file_async E ref_url (input_path ref_filename)
                                      ''reference_image'' fs;
                        (r2, fs2) = download_file_async E video_u (input_path video_filename)
                                      ''dance_video'' fs1
                    in (case first_failure [r1, r2] of
                          Some err \<Rightarrow> (Inr ([], Some err), fs2, [Download ref_url, Download video_u])
                        | None \<Rightarrow>
                            (Inr ([(''reference_image'', ref_filename),
                                   (''dance_video'', video_filename)], None),
                             fs2, [Download ref_url, Download video_u]))))
             else
               (let (r1, fs1) = download_file_async E ref_url (input_path ref_filename)
                                  ''reference_image'' fs
                in (case first_failure [r1] of
                      Some err \<Rightarrow> (Inr ([], Some err), fs1, [Download ref_url])
                    | None \<Rightarrow>
                        (Inr ([(''reference_image'', ref_filename), (''dance_video'', [])], None),
                         fs1, [Download ref_url])))))"

text \<open>The synchronous wrapper turns any exception into an error message.\<close>

definition download_inputs ::
  "env \<Rightarrow> validated \<Rightarrow> json \<Rightarrow> string set \<Rightarrow>
     ((string \<times> string) list \<times> string option) \<times> string set \<times> action list" where
  "download_inputs E validated_data job_id fs =
     (case download_inputs_async E validated_data job_id fs of
        (Inl e, fs', acts) \<Rightarrow> (([], Some (''Failed to download inputs: '' @ exn_str e)), fs', acts)
      | (Inr r, fs', acts) \<Rightarrow> (r, fs', acts))"

section \<open>Workflow template\<close>

definition load_workflow_template :: "env \<Rightarrow> string + json" where
  "load_workflow_template E =
     (case template_file E of
        Inl e \<Rightarrow>
          if exn_cls e = FileNotFoundError
          then Inl (''Workflow template not found at '' @ workflow_template_path E)
          else if exn_cls e = JSONDecodeError
          then Inl (''Invalid JSON in workflow template: '' @ exn_str e)
          else Inl (''Failed to load workflow template: '' @ exn_str e)
      | Inr text \<Rightarrow>
          (case json_loads E text of
             None \<Rightarrow> Inl (''Invalid JSON in workflow template: '' @
                          interp_text E JSONDecodeError (JStr text))
           | Some workflow \<Rightarrow> Inr workflow))"

text \<open>\<open>filenames.get(k, "")\<close> on the dict of downloaded names.\<close>

definition filename_of :: "(string \<times> string) list \<Rightarrow> string \<Rightarrow> string" where
  "filename_of filenames k = (case map_of filenames k of Some f \<Rightarrow> f | None \<Rightarrow> [])"

text \<open>
  The placeholders are replaced in the serialized template, in the order of the dict of
  replacements; the prompt must be a string, since its quotes and backslashes are escaped
  with \<open>str.replace\<close>.
\<close>

definition transform_request_to_workflow ::
  "env \<Rightarrow> validated \<Rightarrow> (string \<times> string) list \<Rightarrow> json \<Rightarrow> exn + json" where
  "transform_request_to_workflow E validated_data filenames workflow =
     (case prompt validated_data of
        JStr p \<Rightarrow>
          (let s0 = json_dumps E workflow;
               s1 = str_replace ''{{reference_image_filename}}'' (filename_of filenames ''reference_image'') s0;
               s2 = str_replace ''{{dance_video_filename}}'' (filename_of filenames ''dance_video'') s1;
               s3 = str_replace ''{{prompt}}''
                      (str_replace [CHR 0x22] [CHR 0x5C, CHR 0x22]
                         (str_replace [CHR 0x5C] [CHR 0x5C, CHR 0x5C] p)) s2;
               s4 = str_replace ''{{width}}'' (str_int (width validated_data)) s3;
               s5 = str_replace ''{{height}}'' (str_int (height validated_data)) s4;
               s6 = str_replace ''{{steps}}'' (str_int (steps validated_data)) s5;
               s7 = str_replace ''{{cfg}}'' (py_repr E (JFloat (cfg validated_data))) s6;
               s8 = str_replace ''{{seed}}'' (str_int (seed validated_data)) s7
           in (case json_loads E s8 of
                 Some w \<Rightarrow> Inr w
               | None \<Rightarrow> Inl (Exn JSONDecodeError (interp_text E JSONDecodeError (JStr s8)))))
      | v \<Rightarrow> raise_interp E AttributeError v)"

section \<open>Talking to the engine\<close>

text \<open>
  \<open>check_server\<close>: poll \<open>i\<close> is made while attempts remain; the first 200 ends the loop,
  any other outcome is followed by the fixed delay.
\<close>

fun check_server_from :: "env \<Rightarrow> nat \<Rightarrow> nat \<Rightarrow> bool \<times> action list" where
  "check_server_from E i 0 = (False, [])"
| "check_server_from E i (Suc n) =
     (if server_poll E i then (True, [Poll])
      else (case check_server_from E (Suc i) n of (r, acts) \<Rightarrow> (r, Poll # Poll_delay # acts)))"

definition check_server :: "env \<Rightarrow> int \<Rightarrow> bool \<times> action list" where
  "check_server E retries = check_server_from E 0 (nat retries)"

definition COMFY_API_AVAILABLE_MAX_RETRIES :: int where
  "COMFY_API_AVAILABLE_MAX_RETRIES = 500"

text \<open>\<open>response.raise_for_status()\<close>: a 4xx or 5xx status raises \<open>HTTPError\<close>.\<close>

definition raise_for_status :: "env \<Rightarrow> int \<Rightarrow> exn + unit" where
  "raise_for_status E status =
     (if 400 \<le> status \<and> status < 600
      then Inl (Exn RequestException (interp_text E RequestException (JInt status)))
      else Inr ())"

text \<open>\<open>response.json()\<close>: a body that does not parse raises the \<open>requests\<close> decode error.\<close>

definition response_json :: "env \<Rightarrow> string \<Rightarrow> exn + json" where
  "response_json E body =
     (case json_loads E body of
        Some j \<Rightarrow> Inr j
      | None \<Rightarrow> Inl (Exn RequestException (interp_text E JSONDecodeError (JStr body))))"

section \<open>Submission\<close>

definition bullet :: string where
  "bullet = [CHR 0xE2, CHR 0x80, CHR 0xA2]"    \<comment> \<open>U+2022 in UTF-8\<close>

definition newline :: string where
  "newline = [CHR 0x0A]"

text \<open>The diagnostic lines of one entry of \<open>node_errors\<close>.\<close>

definition node_error_details :: "env \<Rightarrow> string \<Rightarrow> json \<Rightarrow> string list" where
  "node_error_details E node_id node_error =
     (case node_error of
        JDict errs \<Rightarrow>
          map (\<lambda>(error_type, error_msg).
                 ''Node '' @ node_id @ '' ('' @ error_type @ ''): '' @ py_str E error_msg) errs
      | _ \<Rightarrow> [''Node '' @ node_id @ '': '' @ py_str E node_error])"

text \<open>\<open>x += s\<close> for a string \<open>s\<close>: a string is extended, a list takes the characters.\<close>

definition py_iadd_str :: "env \<Rightarrow> json \<Rightarrow> string \<Rightarrow> exn + json" where
  "py_iadd_str E x s =
     (case x of
        JStr m \<Rightarrow> Inr (JStr (m @ s))
      | JList xs \<Rightarrow> Inr (JList (xs @ map (\<lambda>c. JStr [c]) s))
      | _ \<Rightarrow> raise_interp E TypeError x)"

text \<open>The first part of the message: the engine's reason, or the default.\<close>

definition rejection_reason :: "env \<Rightarrow> json \<Rightarrow> exn + json" where
  "rejection_reason E error_data =
     and_then (py_contains E error_data (JStr ''error'')) (\<lambda>has_error.
       if has_error then
          and_then (py_index E error_data ''error'') (\<lambda>error_info.
            case error_info of
              JDict d \<Rightarrow> py_get E error_info ''message'' (JStr ''Workflow validation failed'')
            | _ \<Rightarrow> Inr (JStr (py_str E error_info)))
        else Inr (JStr ''Workflow validation failed''))"

text \<open>
  The message built from the body of a 400 reply, up to the \<open>raise ValueError\<close>: the
  reason, then one line per entry of \<open>node_errors\<close>. \<open>Inl\<close> is an exception raised while
  building it.
\<close>

definition rejection_message :: "env \<Rightarrow> json \<Rightarrow> exn + json" where
  "rejection_message E error_data =
     and_then (rejection_reason E error_data) (\<lambda>error_message.
     and_then (py_contains E error_data (JStr ''node_errors'')) (\<lambda>has_node_errors.
       if has_node_errors then
         and_then (py_index E error_data ''node_errors'') (\<lambda>node_errors.
         and_then (py_items E node_errors) (\<lambda>items.
           let error_details = concat (map (\<lambda>(node_id, node_error).
                                 node_error_details E node_id node_error) items)
           in if error_details \<noteq> []
              then py_iadd_str E error_message
                     ('':'' @ newline @
                      str_join newline (map (\<lambda>d. bullet @ '' '' @ d) error_details))
              else Inr error_message))
       else Inr error_message))"

text \<open>The exception a 400 reply with the given body raises.\<close>

definition rejection :: "env \<Rightarrow> string \<Rightarrow> exn" where
  "rejection E body =
     (case json_loads E body of
        None \<Rightarrow> Exn ValueError (''ComfyUI validation failed: '' @ body)
      | Some error_data \<Rightarrow>
          (case rejection_message E error_data of
             Inr error_message \<Rightarrow> Exn ValueError (py_str E error_message)
           | Inl e \<Rightarrow>
               if exn_cls e \<in> {JSONDecodeError, KeyError}
               then Exn ValueError (''ComfyUI validation failed: '' @ body)
               else e))"

definition queue_workflow :: "env \<Rightarrow> json \<Rightarrow> string \<Rightarrow> (exn + json) \<times> action list" where
  "queue_workflow E workflow client_id =
     (case post_prompt E (JDict [(''prompt'', workflow), (''client_id'', JStr client_id)]) of
        Http_exception m \<Rightarrow> (Inl (Exn RequestException m), [Submit])
      | Http_response status body \<Rightarrow>
          if status = 400 then (Inl (rejection E body), [Submit])
          else (and_then (raise_for_status E status) (\<lambda>u. response_json E body), [Submit]))"

definition get_history :: "env \<Rightarrow> json \<Rightarrow> (exn + json) \<times> action list" where
  "get_history E prompt_id =
     (case history_reply E prompt_id of
        Http_exception m \<Rightarrow> (Inl (Exn RequestException m), [History])
      | Http_response status body \<Rightarrow>
          (and_then (raise_for_status E status) (\<lambda>u. response_json E body), [History]))"

text \<open>\<open>get_file_data\<close> returns \<open>None\<close> on a timeout and on any request error.\<close>

definition get_file_data :: "env \<Rightarrow> json \<Rightarrow> json \<Rightarrow> json \<Rightarrow> char list option" where
  "get_file_data E filename subfolder file_type =
     (case view E filename subfolder file_type of
        View_content c \<Rightarrow> Some c
      | View_failed \<Rightarrow> None)"

section \<open>Reconnection\<close>

text \<open>
  The loop of \<open>_attempt_websocket_reconnect\<close> at attempt \<open>i\<close> with \<open>n\<close> attempts left:
  the probe comes first, an unreachable engine ends the loop at once, a failed connect is
  remembered, and the delay is skipped after the last attempt.
\<close>

definition connect_error_caught :: "exn \<Rightarrow> bool" where
  "connect_error_caught e = (is_websocket_exception e \<or> is_os_error e)"

fun reconnect_from ::
  "(nat \<Rightarrow> attempt) \<Rightarrow> int \<Rightarrow> nat \<Rightarrow> nat \<Rightarrow> exn \<Rightarrow> (exn + unit) \<times> action list" where
  "reconnect_from w max_attempts i 0 last_error =
     (Inl (Exn WebSocketConnectionClosedException
            (''Connection closed and failed to reconnect. Last error: '' @ exn_str last_error)), [])"
| "reconnect_from w max_attempts i (Suc n) last_error =
     (if \<not> http_reachable (w i) then
        (Inl (Exn WebSocketConnectionClosedException
               ''ComfyUI HTTP unreachable during websocket reconnect''), [Probe])
      else
        (case connect_result (w i) of
           Connected \<Rightarrow> (Inr (), [Probe, Reconnect])
         | Connect_failed e \<Rightarrow>
             if connect_error_caught e then
               (case reconnect_from w max_attempts (Suc i) n e of
                  (r, acts) \<Rightarrow>
                    (r, [Probe, Reconnect] @
                        (if int i < max_attempts - 1 then [Reconnect_delay] else []) @ acts))
             else (Inl e, [Probe, Reconnect])))"

definition attempt_websocket_reconnect ::
  "(nat \<Rightarrow> attempt) \<Rightarrow> int \<Rightarrow> exn \<Rightarrow> (exn + unit) \<times> action list" where
  "attempt_websocket_reconnect w max_attempts initial_error =
     reconnect_from w max_attempts 0 (nat max_attempts) initial_error"

section \<open>Output collection\<close>

text \<open>The three fields both artifact kinds read from a manifest entry.\<close>

definition entry_fields :: "env \<Rightarrow> json \<Rightarrow> exn + (json \<times> json \<times> json)" where
  "entry_fields E info =
     and_then (py_get E info ''filename'' JNull) (\<lambda>filename.
     and_then (py_get E info ''subfolder'' (JStr [])) (\<lambda>subfolder.
     and_then (py_get E info ''type'' (JStr ''output'')) (\<lambda>ty.
     Inr (filename, subfolder, ty))))"

text \<open>\<open>os.path.splitext(filename)[1]\<close> of a decoded value: only a string has a path.\<close>

definition splitext_of :: "env \<Rightarrow> json \<Rightarrow> exn + string" where
  "splitext_of E filename =
     (case filename of JStr f \<Rightarrow> Inr (splitext_ext f) | _ \<Rightarrow> raise_interp E TypeError filename)"

text \<open>
  \<open>process_image_output\<close> returns the artifact, or \<open>None\<close> when the entry is temporary,
  has no filename, could not be fetched (or is empty), or could not be uploaded.
\<close>

definition process_image_output :: "env \<Rightarrow> json \<Rightarrow> json \<Rightarrow> (exn + json option) \<times> action list" where
  "process_image_output E image_info job_id =
     (case entry_fields E image_info of
        Inl e \<Rightarrow> (Inl e, [])
      | Inr (filename, subfolder, img_type) \<Rightarrow>
          if py_eq img_type (JStr ''temp'') then (Inr None, [])
          else if \<not> py_truthy filename then (Inr None, [])
          else
            (case get_file_data E filename subfolder img_type of
               None \<Rightarrow> (Inr None, [View filename])
             | Some image_bytes \<Rightarrow>
                 if image_bytes = [] then (Inr None, [View filename])
                 else
                   (case splitext_of E filename of
                      Inl e \<Rightarrow> (Inl e, [View filename])
                    | Inr ext \<Rightarrow>
                        if bucket_endpoint_url E then
                          (case upload_image E (or_default ext ''.png'') image_bytes of
                             Uploaded s3_url \<Rightarrow>
                               (Inr (Some (JDict [(''filename'', filename),
                                                  (''type'', JStr ''s3_url''),
                                                  (''data'', JStr s3_url)])),
                                [View filename, Upload filename])
                           | Upload_failed m \<Rightarrow> (Inr None, [View filename, Upload filename]))
                        else
                          (Inr (Some (JDict [(''filename'', filename),
                                             (''type'', JStr ''base64''),
                                             (''data'', JStr (b64encode E image_bytes))])),
                           [View filename]))))"

text \<open>
  The extension of the temporary file of a video: looked up by the format; a format
  that is a list or a dict cannot be a key of the table.
\<close>

definition format_to_ext :: "(string \<times> string) list" where
  "format_to_ext =
     [(''video/h264-mp4'', ''.mp4''), (''video/webm'', ''.webm''), (''image/gif'', ''.gif'')]"

definition video_file_ext :: "env \<Rightarrow> json \<Rightarrow> json \<Rightarrow> exn + string" where
  "video_file_ext E video_format filename =
     and_then
       (case video_format of
          JStr f \<Rightarrow> Inr (case map_of format_to_ext f of Some x \<Rightarrow> x | None \<Rightarrow> ''.mp4'')
        | JList xs \<Rightarrow> raise_interp E TypeError video_format
        | JDict kvs \<Rightarrow> raise_interp E TypeError video_format
        | _ \<Rightarrow> Inr ''.mp4'') (\<lambda>file_ext.
     if file_ext = []
     then and_then (splitext_of E filename) (\<lambda>ext. Inr (or_default ext ''.mp4''))
     else Inr file_ext)"

definition process_video_output :: "env \<Rightarrow> json \<Rightarrow> json \<Rightarrow> (exn + json option) \<times> action list" where
  "process_video_output E video_info job_id =
     (case and_then (entry_fields E video_info) (\<lambda>fields.
           and_then (py_get E video_info ''format'' (JStr ''video/h264-mp4'')) (\<lambda>video_format.
           Inr (fields, video_format))) of
        Inl e \<Rightarrow> (Inl e, [])
      | Inr ((filename, subfolder, video_type), video_format) \<Rightarrow>
          if py_eq video_type (JStr ''temp'') then (Inr None, [])
          else if \<not> py_truthy filename then (Inr None, [])
          else
            (case get_file_data E filename subfolder video_type of
               None \<Rightarrow> (Inr None, [View filename])
             | Some video_bytes \<Rightarrow>
                 if video_bytes = [] then (Inr None, [View filename])
                 else
                   (case video_file_ext E video_format filename of
                      Inl e \<Rightarrow> (Inl e, [View filename])
                    | Inr file_ext \<Rightarrow>
                        if bucket_endpoint_url E then
                          (case upload_file E file_ext video_bytes of
                             Uploaded s3_url \<Rightarrow>
                               (Inr (Some (JDict [(''filename'', filename),
                                                  (''type'', JStr ''s3_url''),
                                                  (''data'', JStr s3_url),
                                                  (''format'', video_format)])),
                                [View filename, Upload filename])
                           | Upload_failed m \<Rightarrow> (Inr None, [View filename, Upload filename]))
                        else
                          (Inr (Some (JDict [(''filename'', filename),
                                             (''type'', JStr ''base64''),
                                             (''data'', JStr (b64encode E video_bytes)),
                                             (''format'', video_format)])),
                           [View filename]))))"

text \<open>
  Calls that act on the world return their result with the actions made; sequencing
  keeps the actions made before an exception.
\<close>

fun io_then ::
  "(exn + 'a) \<times> action list \<Rightarrow> ('a \<Rightarrow> (exn + 'b) \<times> action list) \<Rightarrow> (exn + 'b) \<times> action list" where
  "io_then (Inl e, acts) f = (Inl e, acts)"
| "io_then (Inr x, acts) f = (case f x of (r, acts') \<Rightarrow> (r, acts @ acts'))"

text \<open>What collection has gathered: images, videos and error entries, each in order.\<close>

type_synonym outs = "json list \<times> json list \<times> string list"

fun outs_append :: "outs \<Rightarrow> outs \<Rightarrow> outs" where
  "outs_append (i1, v1, e1) (i2, v2, e2) = (i1 @ i2, v1 @ v2, e1 @ e2)"

text \<open>A \<open>for\<close> loop whose body adds to the three lists; an exception ends it.\<close>

fun collect :: "('a \<Rightarrow> (exn + outs) \<times> action list) \<Rightarrow> 'a list \<Rightarrow> (exn + outs) \<times> action list" where
  "collect f [] = (Inr ([], [], []), [])"
| "collect f (x # xs) =
     io_then (f x) (\<lambda>o1. io_then (collect f xs) (\<lambda>o2. (Inr (outs_append o1 o2), [])))"

text \<open>The body of the loop over a component's \<open>images\<close>, and over its \<open>gifs\<close>.\<close>

definition image_entry :: "env \<Rightarrow> string \<Rightarrow> json \<Rightarrow> json \<Rightarrow> (exn + outs) \<times> action list" where
  "image_entry E node_id job_id image_info =
     io_then (process_image_output E image_info job_id) (\<lambda>result.
       case result of
         Some r \<Rightarrow> (Inr ([r], [], []), [])
       | None \<Rightarrow>
           (and_then (py_get E image_info ''type'' JNull) (\<lambda>t.
              Inr ([], [], if \<not> py_eq t (JStr ''temp'')
                           then [''Failed to process image from node '' @ node_id] else [])), []))"

definition video_entry :: "env \<Rightarrow> string \<Rightarrow> json \<Rightarrow> json \<Rightarrow> (exn + outs) \<times> action list" where
  "video_entry E node_id job_id video_info =
     io_then (process_video_output E video_info job_id) (\<lambda>result.
       case result of
         Some r \<Rightarrow> (Inr ([], [r], []), [])
       | None \<Rightarrow>
           (and_then (py_get E video_info ''type'' JNull) (\<lambda>t.
              Inr ([], [], if \<not> py_eq t (JStr ''temp'')
                           then [''Failed to process video from node '' @ node_id] else [])), []))"

text \<open>One output set of a component, when the component has it.\<close>

definition output_set ::
  "env \<Rightarrow> json \<Rightarrow> string \<Rightarrow> (json \<Rightarrow> (exn + outs) \<times> action list) \<Rightarrow> (exn + outs) \<times> action list" where
  "output_set E node_output key entry =
     io_then (py_contains E node_output (JStr key), []) (\<lambda>present.
       if present
       then io_then (and_then (py_index E node_output key) (py_iter E), []) (collect entry)
       else (Inr ([], [], []), []))"

text \<open>The body of the loop over the components; the other keys are only logged.\<close>

definition process_node :: "env \<Rightarrow> json \<Rightarrow> string \<times> json \<Rightarrow> (exn + outs) \<times> action list" where
  "process_node E job_id node =
     (case node of (node_id, node_output) \<Rightarrow>
        io_then (output_set E node_output ''images'' (image_entry E node_id job_id)) (\<lambda>o1.
        io_then (output_set E node_output ''gifs'' (video_entry E node_id job_id)) (\<lambda>o2.
        io_then (py_items E node_output, []) (\<lambda>keys.
        (Inr (outs_append o1 o2), [])))))"

definition process_outputs :: "env \<Rightarrow> json \<Rightarrow> json \<Rightarrow> (exn + outs) \<times> action list" where
  "process_outputs E outputs job_id =
     io_then (and_then (py_iter E outputs) (\<lambda>n. py_items E outputs), [])
       (collect (process_node E job_id))"

section \<open>Cleanup\<close>

text \<open>
  \<open>cleanup_input_files\<close>: each named file that exists is removed; a removal that fails
  is logged and the file stays.
\<close>

fun cleanup_input_files ::
  "env \<Rightarrow> (string \<times> string) list \<Rightarrow> string set \<Rightarrow> string set \<times> action list" where
  "cleanup_input_files E [] fs = (fs, [])"
| "cleanup_input_files E ((file_type, filename) # rest) fs =
     (if filename \<noteq> [] \<and> input_path filename \<in> fs then
        (case cleanup_input_files E rest
                (if remove_ok E (input_path filename) then fs - {input_path filename} else fs) of
           (fs', acts) \<Rightarrow> (fs', Remove (input_path filename) # acts))
      else cleanup_input_files E rest fs)"

section \<open>Execution tracking\<close>

text \<open>What one frame means for the loop.\<close>

datatype verdict =
    Keep_waiting
  | Execution_finished          \<comment> \<open>\<open>execution_done = True; break\<close>\<close>
  | Execution_failed string     \<comment> \<open>\<open>errors.append(...); break\<close>\<close>

definition execution_error_details :: "env \<Rightarrow> json \<Rightarrow> json \<Rightarrow> json \<Rightarrow> string" where
  "execution_error_details E node_type node_id exception_message =
     ''Node Type: '' @ py_str E node_type @ '', Node ID: '' @ py_str E node_id @
     '', Message: '' @ py_str E exception_message"

text \<open>The interpretation of a decoded frame, by its \<open>type\<close>.\<close>

definition on_status :: "env \<Rightarrow> json \<Rightarrow> exn + verdict" where
  "on_status E message =
     and_then (py_get E message ''data'' (JDict [])) (\<lambda>d.
     and_then (py_get E d ''status'' (JDict [])) (\<lambda>status_data.
     and_then (py_get E status_data ''exec_info'' (JDict [])) (\<lambda>exec_info.
     and_then (py_get E exec_info ''queue_remaining'' (JStr ''N/A'')) (\<lambda>queue_remaining.
     Inr Keep_waiting))))"

definition on_executing :: "env \<Rightarrow> json \<Rightarrow> json \<Rightarrow> exn + verdict" where
  "on_executing E prompt_id message =
     and_then (py_get E message ''data'' (JDict [])) (\<lambda>data.
     and_then (py_get E data ''node'' JNull) (\<lambda>node.
     and_then (py_get E data ''prompt_id'' JNull) (\<lambda>p.
     Inr (if node = JNull \<and> py_eq p prompt_id then Execution_finished else Keep_waiting))))"

definition on_execution_error :: "env \<Rightarrow> json \<Rightarrow> json \<Rightarrow> exn + verdict" where
  "on_execution_error E prompt_id message =
     and_then (py_get E message ''data'' (JDict [])) (\<lambda>data.
     and_then (py_get E data ''prompt_id'' JNull) (\<lambda>p.
     if py_eq p prompt_id then
       and_then (py_get E data ''node_type'' JNull) (\<lambda>node_type.
       and_then (py_get E data ''node_id'' JNull) (\<lambda>node_id.
       and_then (py_get E data ''exception_message'' JNull) (\<lambda>exception_message.
       Inr (Execution_failed
              (''Workflow execution error: '' @
               execution_error_details E node_type node_id exception_message)))))
     else Inr Keep_waiting))"

text \<open>
  A progress frame is only logged, but the log line compares and divides: \<open>max\<close> must be
  a number, and \<open>value\<close> too when \<open>max\<close> is positive.
\<close>

definition on_progress :: "env \<Rightarrow> json \<Rightarrow> exn + verdict" where
  "on_progress E message =
     and_then (py_get E message ''data'' (JDict [])) (\<lambda>data.
     and_then (py_get E data ''value'' (JInt 0)) (\<lambda>v.
     and_then (py_get E data ''max'' (JInt 0)) (\<lambda>max_val.
     case py_number max_val of
       None \<Rightarrow> raise_interp E TypeError max_val
     | Some m \<Rightarrow>
         if 0 < m then
           (case py_number v of
              None \<Rightarrow> raise_interp E TypeError v
            | Some x \<Rightarrow> Inr Keep_waiting)
         else Inr Keep_waiting)))"

definition handle_message :: "env \<Rightarrow> json \<Rightarrow> json \<Rightarrow> exn + verdict" where
  "handle_message E prompt_id message =
     and_then (py_get E message ''type'' JNull) (\<lambda>msg_type.
       if py_eq msg_type (JStr ''status'') then on_status E message
       else if py_eq msg_type (JStr ''executing'') then on_executing E prompt_id message
       else if py_eq msg_type (JStr ''execution_error'') then on_execution_error E prompt_id message
       else if py_eq msg_type (JStr ''progress'') then on_progress E message
       else Inr Keep_waiting)"

text \<open>The body of the \<open>try\<close> inside the loop: one receive and its interpretation.\<close>

definition receive :: "env \<Rightarrow> json \<Rightarrow> recv \<Rightarrow> exn + verdict" where
  "receive E prompt_id r =
     (case r of
        Recv_raise e w \<Rightarrow> Inl e
      | Recv_binary \<Rightarrow> Inr Keep_waiting
      | Recv_text out \<Rightarrow>
          (case json_loads E out of
             None \<Rightarrow> Inl (Exn JSONDecodeError (interp_text E JSONDecodeError (JStr out)))
           | Some message \<Rightarrow> handle_message E prompt_id message))"

definition attempts_of :: "recv \<Rightarrow> nat \<Rightarrow> attempt" where
  "attempts_of r =
     (case r of
        Recv_raise e w \<Rightarrow> w
      | _ \<Rightarrow> (\<lambda>i. \<lparr>http_reachable = False, connect_result = Connected\<rparr>))"

text \<open>
  How the loop ends: by a \<open>break\<close>, with \<open>execution_done\<close> and \<open>errors\<close> as they are then;
  by an exception; or not at all, when no further frame arrives.
\<close>

datatype tracked =
    Loop_exit bool "string list"
  | Loop_raise exn
  | Loop_waiting

fun after :: "action list \<Rightarrow> tracked \<times> bool \<times> action list \<Rightarrow> tracked \<times> bool \<times> action list" where
  "after acts (t, ws, acts') = (t, ws, acts @ acts')"

text \<open>
  The \<open>while True\<close> loop over the frames that arrive, with the state of the connection
  (\<open>ws.connected\<close>). The \<open>except\<close> clauses are tried in the source's order.
\<close>

fun track :: "env \<Rightarrow> json \<Rightarrow> recv list \<Rightarrow> bool \<Rightarrow> tracked \<times> bool \<times> action list" where
  "track E prompt_id [] ws = (Loop_waiting, ws, [])"
| "track E prompt_id (r # rs) ws =
     (case receive E prompt_id r of
        Inr Keep_waiting \<Rightarrow> after [Recv] (track E prompt_id rs ws)
      | Inr Execution_finished \<Rightarrow> (Loop_exit True [], ws, [Recv])
      | Inr (Execution_failed d) \<Rightarrow> (Loop_exit False [d], ws, [Recv])
      | Inl e \<Rightarrow>
          if exn_cls e = WebSocketTimeoutException then after [Recv] (track E prompt_id rs ws)
          else if exn_cls e = WebSocketConnectionClosedException then
            (case attempt_websocket_reconnect (attempts_of r) (websocket_reconnect_attempts E) e of
               (Inl e', acts) \<Rightarrow> (Loop_raise e', False, Recv # acts)
             | (Inr u, acts) \<Rightarrow> after (Recv # acts) (track E prompt_id rs True))
          else if exn_cls e = JSONDecodeError then after [Recv] (track E prompt_id rs ws)
          else (Loop_raise e, ws, [Recv]))"

section \<open>The handler\<close>

definition COMFY_HOST :: string where
  "COMFY_HOST = ''127.0.0.1:8188''"

text \<open>\<open>result[k] = v\<close> on a dict in insertion order.\<close>

fun dict_set :: "string \<Rightarrow> json \<Rightarrow> (string \<times> json) list \<Rightarrow> (string \<times> json) list" where
  "dict_set k v [] = [(k, v)]"
| "dict_set k v ((k', v') # kvs) = (if k' = k then (k, v) # kvs else (k', v') # dict_set k v kvs)"

definition error_result :: "string \<Rightarrow> json" where
  "error_result m = JDict [(''error'', JStr m)]"

definition failed_result :: "string list \<Rightarrow> json" where
  "failed_result errors =
     JDict [(''error'', JStr ''Job processing failed''), (''details'', JList (map JStr errors))]"

text \<open>The response built after the \<open>try\<close> statement.\<close>

definition build_response :: "json list \<Rightarrow> json list \<Rightarrow> string list \<Rightarrow> json" where
  "build_response output_images output_videos errors =
     (let r0 = [(''status'', JStr ''success'')];
          r1 = (if output_images \<noteq> [] then dict_set ''images'' (JList output_images) r0 else r0);
          r2 = (if output_videos \<noteq> [] then dict_set ''videos'' (JList output_videos) r1 else r1);
          r3 = (if errors \<noteq> [] then dict_set ''errors'' (JList (map JStr errors)) r2 else r2)
      in if output_images = [] \<and> output_videos = [] then
           (if errors \<noteq> [] then failed_result errors
            else JDict (dict_set ''status'' (JStr ''success_no_output'') r3))
         else JDict r3)"

text \<open>
  How the \<open>try\<close> block ends: it falls through with the three lists, returns from inside,
  raises, or does not end.
\<close>

datatype body =
    Body_done "json list" "json list" "string list"
  | Body_return json
  | Body_raise exn
  | Body_waiting

text \<open>The part of the \<open>try\<close> block after the loop: the manifest and its artifacts.\<close>

definition collect_results ::
  "env \<Rightarrow> json \<Rightarrow> json \<Rightarrow> bool \<Rightarrow> string list \<Rightarrow> body \<times> action list" where
  "collect_results E prompt_id job_id execution_done errors =
     (if \<not> execution_done \<and> errors = [] then
        (Body_raise (Exn ValueError ''Workflow loop exited without completion or error''), [])
      else
        (case get_history E prompt_id of
           (Inl e, a) \<Rightarrow> (Body_raise e, a)
         | (Inr history, a) \<Rightarrow>
            (case py_contains E history prompt_id of
               Inl e \<Rightarrow> (Body_raise e, a)
             | Inr present \<Rightarrow>
                if \<not> present then
                  (let error_msg = ''Prompt ID '' @ py_str E prompt_id @ '' not found in history''
                   in if errors \<noteq> [] then (Body_return (failed_result (errors @ [error_msg])), a)
                      else (Body_return (error_result error_msg), a))
                else
                  (case and_then (py_get_val E history prompt_id (JDict []))
                          (\<lambda>prompt_history. py_get E prompt_history ''outputs'' (JDict [])) of
                     Inl e \<Rightarrow> (Body_raise e, a)
                   | Inr outputs \<Rightarrow>
                      (let errors' = (if \<not> py_truthy outputs
                                      then errors @ [''No outputs found in history''] else errors)
                       in (case process_outputs E outputs job_id of
                             (Inl e, a') \<Rightarrow> (Body_raise e, a @ a')
                           | (Inr (output_images, output_videos, process_errors), a') \<Rightarrow>
                               (Body_done output_images output_videos (errors' @ process_errors),
                                a @ a')))))))"

text \<open>
  Submission inside the \<open>try\<close> block: a request error becomes a \<open>ValueError\<close>, and the
  reply must carry a job id.
\<close>

definition submit :: "env \<Rightarrow> json \<Rightarrow> (exn + json) \<times> action list" where
  "submit E workflow =
     (case queue_workflow E workflow (uuid_client E) of
        (Inl e, a) \<Rightarrow>
          (Inl (if exn_cls e = RequestException
                then Exn ValueError (''Error queuing workflow: '' @ exn_str e) else e), a)
      | (Inr queued_workflow, a) \<Rightarrow>
          (case py_get E queued_workflow ''prompt_id'' JNull of
             Inl e \<Rightarrow> (Inl e, a)
           | Inr prompt_id \<Rightarrow>
               if \<not> py_truthy prompt_id
               then (Inl (Exn ValueError ''Missing 'prompt_id' in queue response''), a)
               else (Inr prompt_id, a)))"

text \<open>The \<open>try\<close> block, with the state of the connection at its end.\<close>

definition run_workflow :: "env \<Rightarrow> json \<Rightarrow> json \<Rightarrow> body \<times> bool \<times> action list" where
  "run_workflow E workflow job_id =
     (case ws_connect E of
        Connect_failed e \<Rightarrow> (Body_raise e, False, [Ws_connect])
      | Connected \<Rightarrow>
          (case submit E workflow of
             (Inl e, a) \<Rightarrow> (Body_raise e, True, Ws_connect # a)
           | (Inr prompt_id, a) \<Rightarrow>
               (case track E prompt_id (recvs E) True of
                  (Loop_waiting, ws, a2) \<Rightarrow> (Body_waiting, ws, Ws_connect # a @ a2)
                | (Loop_raise e, ws, a2) \<Rightarrow> (Body_raise e, ws, Ws_connect # a @ a2)
                | (Loop_exit execution_done errors, ws, a2) \<Rightarrow>
                    (case collect_results E prompt_id job_id execution_done errors of
                       (b, a3) \<Rightarrow> (b, ws, Ws_connect # a @ a2 @ a3)))))"

text \<open>The result of the \<open>except\<close> clause that takes the exception.\<close>

definition exception_result :: "exn \<Rightarrow> json" where
  "exception_result e =
     error_result
       (if is_websocket_exception e then ''WebSocket communication error: '' @ exn_str e
        else if exn_cls e = RequestException then ''HTTP communication error: '' @ exn_str e
        else if is_value_error e then exn_str e
        else ''Unexpected error: '' @ exn_str e)"

text \<open>What a call of the handler comes to.\<close>

datatype outcome =
    Returns json
  | Raises exn
  | Waits          \<comment> \<open>still blocked on the stream: the handler has not returned\<close>

text \<open>
  The \<open>except\<close> clauses and the \<open>finally\<close> clause, then the response: every \<open>except\<close>
  clause cleans up before it returns, and \<open>finally\<close> closes the stream and cleans up
  again.
\<close>

definition finish ::
  "env \<Rightarrow> (string \<times> string) list \<Rightarrow> body \<Rightarrow> bool \<Rightarrow> string set \<Rightarrow>
     outcome \<times> string set \<times> action list" where
  "finish E filenames b ws fs =
     (let closing = (if ws then [Ws_close] else []) in
      case b of
        Body_waiting \<Rightarrow> (Waits, fs, [])
      | Body_raise e \<Rightarrow>
          (case cleanup_input_files E filenames fs of
             (fs1, a1) \<Rightarrow>
               (case cleanup_input_files E filenames fs1 of
                  (fs2, a2) \<Rightarrow> (Returns (exception_result e), fs2, a1 @ closing @ a2)))
      | Body_return j \<Rightarrow>
          (case cleanup_input_files E filenames fs of
             (fs1, a1) \<Rightarrow> (Returns j, fs1, closing @ a1))
      | Body_done output_images output_videos errors \<Rightarrow>
          (case cleanup_input_files E filenames fs of
             (fs1, a1) \<Rightarrow>
               (Returns (build_response output_images output_videos errors), fs1, closing @ a1)))"

text \<open>
  The second component of a returned pair \<open>(value, error_message)\<close>: \<open>None\<close> and the empty
  string both fail the test \<open>if error_message:\<close>.
\<close>

fun error_text :: "string option \<Rightarrow> string" where
  "error_text None = []"
| "error_text (Some m) = m"

text \<open>The handler from the download on, for a validated request.\<close>

definition process_job ::
  "env \<Rightarrow> validated \<Rightarrow> json \<Rightarrow> string set \<Rightarrow> outcome \<times> string set \<times> action list" where
  "process_job E validated_data job_id fs =
     (case download_inputs E validated_data job_id fs of
        ((filenames, error_message), fs1, a1) \<Rightarrow>
          if error_text error_message \<noteq> []
          then (Returns (error_result (error_text error_message)), fs1, a1)
          else
            (case load_workflow_template E of
               Inl m \<Rightarrow>
                 (case cleanup_input_files E filenames fs1 of
                    (fs2, a2) \<Rightarrow> (Returns (error_result m), fs2, a1 @ [Load_template] @ a2))
             | Inr template \<Rightarrow>
                 (case transform_request_to_workflow E validated_data filenames template of
                    Inl e \<Rightarrow>
                      (case cleanup_input_files E filenames fs1 of
                         (fs2, a2) \<Rightarrow>
                           (Returns (error_result (''Failed to transform workflow: '' @ exn_str e)),
                            fs2, a1 @ [Load_template] @ a2))
                  | Inr workflow \<Rightarrow>
                      (case run_workflow E workflow job_id of
                         (b, ws, a3) \<Rightarrow>
                           (case finish E filenames b ws fs1 of
                              (r, fs2, a4) \<Rightarrow> (r, fs2, a1 @ [Load_template] @ a3 @ a4))))))"

text \<open>
  \<open>handler\<close>: the job's fields, validation, the liveness check, and the rest. The input
  directory is passed in and returned.
\<close>

definition handler :: "env \<Rightarrow> json \<Rightarrow> string set \<Rightarrow> outcome \<times> string set \<times> action list" where
  "handler E job fs =
     (case and_then (py_get E job ''input'' (JDict [])) (\<lambda>job_input.
           and_then (py_get E job ''id'' (JStr (uuid_job E))) (\<lambda>job_id.
           and_then (validate_input E job_input) (\<lambda>v. Inr (job_id, v)))) of
        Inl e \<Rightarrow> (Raises e, fs, [])
      | Inr (job_id, Inl error_message) \<Rightarrow> (Returns (error_result error_message), fs, [])
      | Inr (job_id, Inr validated_data) \<Rightarrow>
          (case check_server E COMFY_API_AVAILABLE_MAX_RETRIES of
             (False, a0) \<Rightarrow>
               (Returns (error_result (''ComfyUI server ('' @ COMFY_HOST @ '') not reachable'')),
                fs, a0)
           | (True, a0) \<Rightarrow>
               (case process_job E validated_data job_id fs of
                  (r, fs', a) \<Rightarrow> (r, fs', a0 @ a))))"

section \<open>Properties of runs\<close>

text \<open>
  The predicates below are used to state what is proved about runs; nothing in the model
  of the handler depends on them.
\<close>


text \<open>
  A reconnect attempt that fails and is retried: the engine answers the probe, and the
  connect raises one of the exceptions the loop catches.
\<close>

definition failed_attempt :: "attempt \<Rightarrow> bool" where
  "failed_attempt a =
     (http_reachable a \<and>
      (case connect_result a of Connect_failed e \<Rightarrow> connect_error_caught e | Connected \<Rightarrow> False))"

text \<open>The failure of attempt \<open>n - 1\<close>, or the initial error when no attempt was made.\<close>

definition last_failure :: "(nat \<Rightarrow> attempt) \<Rightarrow> nat \<Rightarrow> exn \<Rightarrow> exn" where
  "last_failure w n initial_error =
     (if n = 0 then initial_error
      else case connect_result (w (n - 1)) of Connect_failed e \<Rightarrow> e | Connected \<Rightarrow> initial_error)"

text \<open>Every attempt to re-open the stream comes directly after a reachability probe.\<close>

definition probed :: "action list \<Rightarrow> bool" where
  "probed acts = (\<forall>pre post. acts = pre @ Reconnect # post \<longrightarrow> (\<exists>pre'. pre = pre' @ [Probe]))"




text \<open>
  The stage of the job an action belongs to: liveness check, input acquisition, template
  load, stream connect, submission, execution tracking, output collection, cleanup.
\<close>

fun stage :: "action \<Rightarrow> nat" where
  "stage Poll = 0"
| "stage Poll_delay = 0"
| "stage (Download u) = 1"
| "stage Load_template = 2"
| "stage Ws_connect = 3"
| "stage Submit = 4"
| "stage Recv = 5"
| "stage Probe = 5"
| "stage Reconnect = 5"
| "stage Reconnect_delay = 5"
| "stage History = 6"
| "stage (View f) = 6"
| "stage (Upload f) = 6"
| "stage Ws_close = 7"
| "stage (Remove p) = 7"

text \<open>
  No liveness poll and no submission is made before some input download has been made.
\<close>

definition acquisition_first :: "action list \<Rightarrow> bool" where
  "acquisition_first acts =
     (\<forall>i < length acts. acts ! i = Poll \<or> acts ! i = Submit \<longrightarrow>
        (\<exists>j < i. \<exists>u. acts ! j = Download u))"

text \<open>The actions are in stage order, with every stage between the two bounds.\<close>

definition phase :: "nat \<Rightarrow> nat \<Rightarrow> action list \<Rightarrow> bool" where
  "phase lo hi acts = (sorted (map stage acts) \<and> (\<forall>a \<in> set acts. lo \<le> stage a \<and> stage a \<le> hi))"

text \<open>\<open>data.get(k)\<close> on the data of a frame.\<close>

definition field_of :: "(string \<times> json) list \<Rightarrow> string \<Rightarrow> json" where
  "field_of d k = (case map_of d k of Some v \<Rightarrow> v | None \<Rightarrow> JNull)"

text \<open>
  The error entry of an \<open>execution_error\<close> frame: the component kind, id and message of
  the frame, as they are.
\<close>

definition execution_error_entry :: "env \<Rightarrow> (string \<times> json) list \<Rightarrow> string" where
  "execution_error_entry E data =
     ''Workflow execution error: Node Type: '' @ py_str E (field_of data ''node_type'') @
     '', Node ID: '' @ py_str E (field_of data ''node_id'') @
     '', Message: '' @ py_str E (field_of data ''exception_message'')"

section \<open>A sample world\<close>

text \<open>
  A world in which every call succeeds, used to run the model on concrete jobs: the
  engine answers the first poll, every download and artifact fetch returns a few
  bytes, and URLs have the form \<open>http://h/path\<close>. The decoder knows the texts listed in
  \<open>sample_texts\<close>.
\<close>

definition sample_request :: "(string \<times> json) list" where
  "sample_request =
     [(''images'', JDict [(''reference_image'', JStr ''http://h/a.png'')]),
      (''videos'', JDict [(''dance_video'', JStr ''http://h/b.mp4'')]),
      (''prompt'', JStr ''dance''),
      (''width'', JInt 500),
      (''height'', JInt 896),
      (''seed'', JInt 7)]"

text \<open>A request without a video, a seed or dimensions.\<close>

definition seedless_request :: "(string \<times> json) list" where
  "seedless_request =
     [(''images'', JDict [(''reference_image'', JStr ''http://h/a.png'')]),
      (''videos'', JDict [(''dance_video'', JStr [])]),
      (''prompt'', JStr ''dance'')]"

definition sample_job :: json where
  "sample_job = JDict [(''id'', JStr ''j1''), (''input'', JDict sample_request)]"

definition sample_validated :: validated where
  "sample_validated =
     \<lparr>reference_image_url = JStr ''http://h/a.png'', dance_video_url = JStr ''http://h/b.mp4'',
      prompt = JStr ''dance'', negative_prompt = JStr [],
      width = 480, height = 896, steps = 6, cfg = 1, seed = 7\<rparr>"

text \<open>A manifest with one image and one video.\<close>

definition sample_outputs :: json where
  "sample_outputs =
     JDict [(''9'', JDict [(''images'', JList [JDict [(''filename'', JStr ''a.png''),
                                                       (''type'', JStr ''output'')]])]),
            (''12'', JDict [(''gifs'', JList [JDict [(''filename'', JStr ''b.mp4''),
                                                     (''type'', JStr ''output''),
                                                     (''format'', JStr ''video/h264-mp4'')]])])]"

definition sample_texts :: "(string \<times> json) list" where
  "sample_texts =
     [(''{}'', JDict []),
      (''queued'', JDict [(''prompt_id'', JStr ''p1'')]),
      (''done'', JDict [(''type'', JStr ''executing''),
                        (''data'', JDict [(''node'', JNull), (''prompt_id'', JStr ''p1'')])]),
      (''failed'', JDict [(''type'', JStr ''execution_error''),
                          (''data'', JDict [(''prompt_id'', JStr ''p1''),
                                            (''node_type'', JStr ''KSampler''),
                                            (''node_id'', JStr ''3''),
                                            (''exception_message'', JStr ''out of memory'')])]),
      (''history'', JDict [(''p1'', JDict [(''outputs'', sample_outputs)])]),
      (''rejected'', JDict [(''error'', JDict [(''message'', JStr ''Prompt outputs failed validation'')]),
                            (''node_errors'', JDict [(''12'', JDict [(''type_error'', JStr ''bad value'')])])])]"

definition sample_env :: env where
  "sample_env =
     \<lparr>time_ms = 1700000000123,
      interp_text = (\<lambda>c v. ''interpreter message''),
      int_of_str = (\<lambda>s. None),
      float_of = (\<lambda>v. case py_number v of Some r \<Rightarrow> Inr r
                        | None \<Rightarrow> Inl (Exn TypeError ''float() argument'')),
      py_repr = (\<lambda>v. ''repr''),
      json_loads = map_of sample_texts,
      json_dumps = (\<lambda>v. ''{}''),
      uuid_job = ''u-job'',
      uuid_client = ''u-client'',
      urlparse_path = (\<lambda>s. Inr (drop 8 s)),
      server_poll = (\<lambda>i. True),
      download = (\<lambda>u. Download_response 200 ''media''),
      workflow_template_path = ''/workflow_template.json'',
      template_file = Inr ''{}'',
      ws_connect = Connected,
      post_prompt = (\<lambda>p. Http_response 200 ''queued''),
      recvs = [Recv_text ''done''],
      history_reply = (\<lambda>p. Http_response 200 ''history''),
      view = (\<lambda>f s t. View_content ''bytes''),
      bucket_endpoint_url = False,
      upload_image = (\<lambda>s b. Uploaded ''s3://image''),
      upload_file = (\<lambda>s b. Uploaded ''s3://video''),
      b64encode = (\<lambda>b. ''b64:'' @ b),
      remove_ok = (\<lambda>p. True),
      websocket_reconnect_attempts = 5,
      websocket_reconnect_delay_s = 3\<rparr>"

text \<open>
  Answers to reconnect attempts: every connect is refused; the third connect succeeds; the
  engine stops answering the probe after the first attempt.
\<close>

definition refusing :: "nat \<Rightarrow> attempt" where
  "refusing = (\<lambda>i. \<lparr>http_reachable = True,
                     connect_result = Connect_failed (Exn OSError ''refused'')\<rparr>)"

definition third_time :: "nat \<Rightarrow> attempt" where
  "third_time = (\<lambda>i. \<lparr>http_reachable = True,
                       connect_result = (if i < 2 then Connect_failed (Exn OSError ''refused'')
                                         else Connected)\<rparr>)"

definition engine_gone :: "nat \<Rightarrow> attempt" where
  "engine_gone = (\<lambda>i. \<lparr>http_reachable = (i < 1),
                        connect_result = Connect_failed (Exn OSError ''refused'')\<rparr>)"

text \<open>The exceptions of a closed stream and of a receive timeout.\<close>

definition stream_closed :: exn where
  "stream_closed = Exn WebSocketConnectionClosedException ''Connection to remote host was lost.''"


text \<open>What a run of the sample job creates and collects.\<close>

definition sample_filenames :: "(string \<times> string) list" where
  "sample_filenames = [(''reference_image'', ''ref_j1.png''), (''dance_video'', ''dance_j1.mp4'')]"

definition sample_files :: "string set" where
  "sample_files = {''/comfyui/input/dance_j1.mp4'', ''/comfyui/input/ref_j1.png''}"

definition sample_image :: json where
  "sample_image = JDict [(''filename'', JStr ''a.png''), (''type'', JStr ''base64''),
                         (''data'', JStr ''b64:bytes'')]"

definition sample_video :: json where
  "sample_video = JDict [(''filename'', JStr ''b.mp4''), (''type'', JStr ''base64''),
                         (''data'', JStr ''b64:bytes''), (''format'', JStr ''video/h264-mp4'')]"

text \<open>The sample world, except that the video source answers 404.\<close>

definition video_missing_env :: env where
  "video_missing_env =
     sample_env\<lparr>download := (\<lambda>u. if u = ''http://h/b.mp4'' then Download_response 404 []
                                  else Download_response 200 ''media'')\<rparr>"

section \<open>Sequencing\<close>

lemma and_then_Inr_iff: "and_then m f = Inr y \<longleftrightarrow> (\<exists>x. m = Inr x \<and> f x = Inr y)"
  by (cases m) auto

lemma and_then_Inl_iff:
  "and_then m f = Inl e \<longleftrightarrow> m = Inl e \<or> (\<exists>x. m = Inr x \<and> f x = Inl e)"
  by (cases m) auto

section \<open>Validated dimensions and seed\<close>

lemma adjust_dim_eq: "adjust_dim d = 32 * (d div 32)"
  unfolding adjust_dim_def by (simp add: mod_eq_0_iff_dvd)

lemma adjust_dim_greatest:
  "32 dvd adjust_dim d \<and> adjust_dim d \<le> d \<and> (\<forall>m. 32 dvd m \<and> m \<le> d \<longrightarrow> m \<le> adjust_dim d)
   \<and> (32 dvd d \<longrightarrow> adjust_dim d = d)"
proof (intro conjI allI impI)
  show "32 dvd adjust_dim d" by (simp add: adjust_dim_eq)
  have "32 * (d div 32) + d mod 32 = d" by simp
  moreover have "0 \<le> d mod 32" by simp
  ultimately show "adjust_dim d \<le> d" unfolding adjust_dim_eq by linarith
next
  fix m :: int assume "32 dvd m \<and> m \<le> d"
  then obtain k where k: "m = 32 * k" and le: "m \<le> d" by (auto elim: dvdE)
  have "m div 32 \<le> d div 32" using le by (rule zdiv_mono1) simp
  then have "k \<le> d div 32" using k by simp
  then show "m \<le> adjust_dim d" using k by (simp add: adjust_dim_eq)
next
  assume "32 dvd d" then show "adjust_dim d = d" by (simp add: adjust_dim_def mod_eq_0_iff_dvd)
qed

lemma convert_numeric_Inr:
  "convert_numeric E w h st c sd = Inr (w', h', st', c', sd') \<longleftrightarrow>
     py_int E w = Inr w' \<and> py_int E h = Inr h' \<and> py_int E st = Inr st' \<and> float_of E c = Inr c'
     \<and> (if \<not> py_eq sd (JInt (- 1)) then py_int E sd else Inr (time_ms E mod 2 ^ 31)) = Inr sd'"
  unfolding convert_numeric_def by (auto simp: and_then_Inr_iff)

text \<open>A request accepted by validation has passed the numeric conversions.\<close>

lemma validate_numeric_Inr:
  assumes "validate_numeric E (JDict kvs) ri dv p n = Inr (Inr v)"
  shows "\<exists>w h st c sd.
           convert_numeric E (case map_of kvs ''width'' of Some x \<Rightarrow> x | None \<Rightarrow> JInt 512)
             (case map_of kvs ''height'' of Some x \<Rightarrow> x | None \<Rightarrow> JInt 896)
             (case map_of kvs ''steps'' of Some x \<Rightarrow> x | None \<Rightarrow> JInt 6)
             (case map_of kvs ''cfg'' of Some x \<Rightarrow> x | None \<Rightarrow> JFloat 1)
             (case map_of kvs ''seed'' of Some x \<Rightarrow> x | None \<Rightarrow> JInt (- 1)) = Inr (w, h, st, c, sd)
           \<and> width v = adjust_dim w \<and> height v = adjust_dim h \<and> steps v = st \<and> cfg v = c \<and> seed v = sd"
  using assms unfolding validate_numeric_def
  by (auto simp: and_then_Inr_iff split: sum.splits if_splits prod.splits)

lemma validate_fields_Inr:
  assumes "validate_fields E (JDict kvs) = Inr (Inr v)"
  shows "\<exists>ri dv p n. validate_numeric E (JDict kvs) ri dv p n = Inr (Inr v)"
  using assms unfolding validate_fields_def
  by (auto simp: and_then_Inr_iff split: if_splits)

lemma validate_input_dict: "validate_input E (JDict kvs) = validate_fields E (JDict kvs)"
  by (simp add: validate_input_def)

text \<open>
  Claim C7. For every requested integer width and height, the dimensions of the validated
  request are the largest multiples of 32 not exceeding the requested values: each is a
  multiple of 32, is at most the request, is at least every multiple of 32 that is at
  most the request, and equals the request when that is already a multiple of 32.
\<close>

theorem validate_input_dimensions:
  assumes "validate_input E (JDict kvs) = Inr (Inr v)"
    and "map_of kvs ''width'' = Some (JInt w)"
    and "map_of kvs ''height'' = Some (JInt h)"
  shows "32 dvd width v \<and> width v \<le> w \<and> (\<forall>m. 32 dvd m \<and> m \<le> w \<longrightarrow> m \<le> width v)
       \<and> (32 dvd w \<longrightarrow> width v = w)
       \<and> 32 dvd height v \<and> height v \<le> h \<and> (\<forall>m. 32 dvd m \<and> m \<le> h \<longrightarrow> m \<le> height v)
       \<and> (32 dvd h \<longrightarrow> height v = h)"
proof -
  from assms(1) obtain ri dv p n where "validate_numeric E (JDict kvs) ri dv p n = Inr (Inr v)"
    using validate_fields_Inr validate_input_dict by metis
  from validate_numeric_Inr[OF this] assms(2,3)
  have "width v = adjust_dim w" "height v = adjust_dim h"
    by (auto simp: convert_numeric_Inr)
  then show ?thesis
    using adjust_dim_greatest[of w] adjust_dim_greatest[of h] by simp
qed

lemma validate_sample_request:
  "validate_input sample_env (JDict sample_request) = Inr (Inr sample_validated)"
  by (simp add: validate_input_def validate_fields_def validate_numeric_def convert_numeric_def
      adjust_dim_def sample_env_def sample_request_def sample_validated_def)

theorem validate_input_dimensions_witness:
  "validate_input sample_env (JDict sample_request) = Inr (Inr sample_validated)
   \<and> map_of sample_request ''width'' = Some (JInt 500)
   \<and> map_of sample_request ''height'' = Some (JInt 896)
   \<and> width sample_validated = 480 \<and> 32 dvd width sample_validated
   \<and> width sample_validated \<le> 500
   \<and> height sample_validated = 896"
proof -
  have w: "map_of sample_request ''width'' = Some (JInt 500)"
    and h: "map_of sample_request ''height'' = Some (JInt 896)"
    by (simp_all add: sample_request_def)
  from validate_input_dimensions[OF validate_sample_request w h]
  show ?thesis using validate_sample_request w h by (simp add: sample_validated_def)
qed

text \<open>
  Claim C10. For every validated request: when the seed is absent or equal to \<open>-1\<close>, the
  validated seed is the time-derived value \<open>int(time.time() * 1000) % 2**31\<close>, which lies
  in \<open>[0, 2^31)\<close>; any other seed is the result of its integer conversion, so an integer
  seed other than \<open>-1\<close> is passed through unchanged.
\<close>

theorem validate_input_seed:
  assumes "validate_input E (JDict kvs) = Inr (Inr v)"
  shows "((map_of kvs ''seed'' = None \<or> (\<exists>s. map_of kvs ''seed'' = Some s \<and> py_eq s (JInt (- 1))))
            \<longrightarrow> seed v = time_ms E mod 2 ^ 31 \<and> 0 \<le> seed v \<and> seed v < 2 ^ 31)
       \<and> (\<forall>s. map_of kvs ''seed'' = Some s \<and> \<not> py_eq s (JInt (- 1)) \<longrightarrow> py_int E s = Inr (seed v))
       \<and> (\<forall>i. map_of kvs ''seed'' = Some (JInt i) \<and> i \<noteq> - 1 \<longrightarrow> seed v = i)"
proof -
  from assms(1) obtain ri dv p n where "validate_numeric E (JDict kvs) ri dv p n = Inr (Inr v)"
    using validate_fields_Inr validate_input_dict by metis
  from validate_numeric_Inr[OF this] obtain w h st c where
    *: "(if \<not> py_eq (case map_of kvs ''seed'' of Some x \<Rightarrow> x | None \<Rightarrow> JInt (- 1)) (JInt (- 1))
         then py_int E (case map_of kvs ''seed'' of Some x \<Rightarrow> x | None \<Rightarrow> JInt (- 1))
         else Inr (time_ms E mod 2 ^ 31)) = Inr (seed v)"
    by (auto simp: convert_numeric_Inr)
  show ?thesis using * by (auto split: if_splits option.splits)
qed

lemma validate_seedless_request:
  "validate_input sample_env (JDict seedless_request) =
     Inr (Inr \<lparr>reference_image_url = JStr ''http://h/a.png'', dance_video_url = JStr [],
               prompt = JStr ''dance'', negative_prompt = JStr [],
               width = 512, height = 896, steps = 6, cfg = 1,
               seed = 1700000000123 mod 2 ^ 31\<rparr>)"
  by (simp add: validate_input_def validate_fields_def validate_numeric_def convert_numeric_def
      adjust_dim_def sample_env_def seedless_request_def)

theorem validate_input_seed_witness:
  "validate_input sample_env (JDict sample_request) = Inr (Inr sample_validated)
   \<and> seed sample_validated = 7
   \<and> (\<exists>v. validate_input sample_env (JDict seedless_request) = Inr (Inr v)
          \<and> seed v = 1700000000123 mod 2 ^ 31 \<and> 0 \<le> seed v \<and> seed v < 2 ^ 31)"
proof -
  have s: "map_of sample_request ''seed'' = Some (JInt 7)"
    by (simp add: sample_request_def)
  have n: "map_of seedless_request ''seed'' = None"
    by (simp add: seedless_request_def)
  from validate_input_seed[OF validate_sample_request] s
  have "seed sample_validated = 7" by simp
  moreover from validate_input_seed[OF validate_seedless_request] n
  have "\<exists>v. validate_input sample_env (JDict seedless_request) = Inr (Inr v)
          \<and> seed v = 1700000000123 mod 2 ^ 31 \<and> 0 \<le> seed v \<and> seed v < 2 ^ 31"
    using validate_seedless_request by (simp add: sample_env_def)
  ultimately show ?thesis using validate_sample_request by simp
qed

section \<open>The response\<close>




section \<open>Skipped receives\<close>





section \<open>Reconnection\<close>

lemma probed_simple: "probed []" "probed [Probe]" "probed [Probe, Reconnect]"
  by (auto simp: probed_def append_eq_Cons_conv Cons_eq_append_conv)

lemma probed_block:
  assumes "probed acts" and "Reconnect \<notin> set d"
  shows "probed ([Probe, Reconnect] @ d @ acts)"
  unfolding probed_def
proof (intro allI impI)
  fix pre post
  assume eq: "[Probe, Reconnect] @ d @ acts = pre @ Reconnect # post"
  show "\<exists>pre'. pre = pre' @ [Probe]"
  proof (cases "length pre \<le> 1")
    case True
    with eq show ?thesis by (cases pre) (auto simp: Cons_eq_append_conv)
  next
    case False
    then obtain p where pre: "pre = [Probe, Reconnect] @ p"
      using eq by (cases pre; cases "tl pre") auto
    with eq have eq2: "d @ acts = p @ Reconnect # post" by simp
    then have "\<exists>q. p = d @ q \<and> acts = q @ Reconnect # post"
      using assms(2)
      by (auto simp: append_eq_append_conv2 append_eq_Cons_conv Cons_eq_append_conv)
    then obtain q where q: "p = d @ q" "acts = q @ Reconnect # post" by blast
    with assms(1) obtain q' where "q = q' @ [Probe]" unfolding probed_def by blast
    with pre q show ?thesis by simp
  qed
qed

lemma reconnect_from_probed: "probed (snd (reconnect_from w mx i n le0))"
proof (induction n arbitrary: i le0)
  case 0
  show ?case by (simp add: probed_simple)
next
  case (Suc n)
  show ?case
  proof (cases "http_reachable (w i)")
    case False
    then show ?thesis by (simp add: probed_simple)
  next
    case True
    show ?thesis
    proof (cases "connect_result (w i)")
      case Connected
      with True show ?thesis by (simp add: probed_simple)
    next
      case (Connect_failed e)
      show ?thesis
      proof (cases "connect_error_caught e")
        case False
        with True Connect_failed show ?thesis by (simp add: probed_simple)
      next
        case c: True
        have "probed ([Probe, Reconnect] @ (if int i < mx - 1 then [Reconnect_delay] else []) @
                snd (reconnect_from w mx (Suc i) n e))"
          by (rule probed_block[OF Suc.IH]) simp
        with True Connect_failed c show ?thesis
          by (simp add: split_beta)
      qed
    qed
  qed
qed

lemma reconnect_from_bound: "count_list (snd (reconnect_from w mx i n le0)) Reconnect \<le> n"
proof (induction n arbitrary: i le0)
  case 0
  show ?case by simp
next
  case (Suc n)
  have "count_list (snd (reconnect_from w mx (Suc i) n e)) Reconnect \<le> n" for e
    by (rule Suc.IH)
  then show ?case
    by (auto simp: split_beta split: connect_reply.splits
        intro: le_SucI)
qed

lemma reconnect_from_unreachable:
  assumes "k < n" and "\<forall>j<k. failed_attempt (w (i + j))" and "\<not> http_reachable (w (i + k))"
  shows "fst (reconnect_from w mx i n le0) =
           Inl (Exn WebSocketConnectionClosedException
                  ''ComfyUI HTTP unreachable during websocket reconnect'')
         \<and> count_list (snd (reconnect_from w mx i n le0)) Reconnect = k"
  using assms
proof (induction n arbitrary: i k le0)
  case 0
  then show ?case by simp
next
  case (Suc n)
  show ?case
  proof (cases k)
    case 0
    with Suc.prems show ?thesis by simp
  next
    case (Suc k')
    with Suc.prems have f: "failed_attempt (w i)" by (auto dest: spec[of _ 0])
    then obtain e where e: "http_reachable (w i)" "connect_result (w i) = Connect_failed e"
      "connect_error_caught e"
      by (auto simp: failed_attempt_def split: connect_reply.splits)
    have "k' < n" using Suc Suc.prems by simp
    moreover have "\<forall>j<k'. failed_attempt (w (Suc i + j))"
      using Suc.prems(2) Suc by (auto dest: spec[of _ "Suc _"])
    moreover have "\<not> http_reachable (w (Suc i + k'))" using Suc.prems(3) Suc by simp
    ultimately have IH: "fst (reconnect_from w mx (Suc i) n e) =
           Inl (Exn WebSocketConnectionClosedException
                  ''ComfyUI HTTP unreachable during websocket reconnect'')
         \<and> count_list (snd (reconnect_from w mx (Suc i) n e)) Reconnect = k'"
      by (rule Suc.IH)
    obtain r acts where ra: "reconnect_from w mx (Suc i) n e = (r, acts)" by force
    with IH e Suc show ?thesis by simp
  qed
qed

lemma reconnect_from_success:
  assumes "k < n" and "\<forall>j<k. failed_attempt (w (i + j))" and "http_reachable (w (i + k))"
    and "connect_result (w (i + k)) = Connected"
  shows "fst (reconnect_from w mx i n le0) =
           Inr ()
         \<and> count_list (snd (reconnect_from w mx i n le0)) Reconnect = Suc k"
  using assms
proof (induction n arbitrary: i k le0)
  case 0
  then show ?case by simp
next
  case (Suc n)
  show ?case
  proof (cases k)
    case 0
    with Suc.prems show ?thesis by simp
  next
    case (Suc k')
    with Suc.prems have f: "failed_attempt (w i)" by (auto dest: spec[of _ 0])
    then obtain e where e: "http_reachable (w i)" "connect_result (w i) = Connect_failed e"
      "connect_error_caught e"
      by (auto simp: failed_attempt_def split: connect_reply.splits)
    have "k' < n" using Suc Suc.prems by simp
    moreover have "\<forall>j<k'. failed_attempt (w (Suc i + j))"
      using Suc.prems(2) Suc by (auto dest: spec[of _ "Suc _"])
    moreover have "http_reachable (w (Suc i + k'))" using Suc.prems(3) Suc by simp
    moreover have "connect_result (w (Suc i + k')) = Connected" using Suc.prems(4) Suc by simp
    ultimately have IH: "fst (reconnect_from w mx (Suc i) n e) =
           Inr ()
         \<and> count_list (snd (reconnect_from w mx (Suc i) n e)) Reconnect = Suc k'"
      by (rule Suc.IH)
    obtain r acts where ra: "reconnect_from w mx (Suc i) n e = (r, acts)" by force
    with IH e Suc show ?thesis by simp
  qed
qed

lemma reconnect_from_exhausted:
  assumes "\<forall>j<n. failed_attempt (w (i + j))"
  shows "fst (reconnect_from w mx i n le0) =
           Inl (Exn WebSocketConnectionClosedException
                  (''Connection closed and failed to reconnect. Last error: '' @
                   exn_str (last_failure (\<lambda>j. w (i + j)) n le0)))
         \<and> count_list (snd (reconnect_from w mx i n le0)) Reconnect = n"
  using assms
proof (induction n arbitrary: i le0)
  case 0
  then show ?case by (simp add: last_failure_def)
next
  case (Suc n)
  from Suc.prems have f: "failed_attempt (w i)" by (auto dest: spec[of _ 0])
  then obtain e where e: "http_reachable (w i)" "connect_result (w i) = Connect_failed e"
    "connect_error_caught e"
    by (auto simp: failed_attempt_def split: connect_reply.splits)
  have pre: "\<forall>j<n. failed_attempt (w (Suc i + j))"
    using Suc.prems by (auto dest: spec[of _ "Suc _"])
  have IH: "fst (reconnect_from w mx (Suc i) n e) =
           Inl (Exn WebSocketConnectionClosedException
                  (''Connection closed and failed to reconnect. Last error: '' @
                   exn_str (last_failure (\<lambda>j. w (Suc i + j)) n e)))
         \<and> count_list (snd (reconnect_from w mx (Suc i) n e)) Reconnect = n"
    by (rule Suc.IH[OF pre])
  obtain r acts where ra: "reconnect_from w mx (Suc i) n e = (r, acts)" by force
  have lf: "last_failure (\<lambda>j. w (Suc i + j)) n e = last_failure (\<lambda>j. w (i + j)) (Suc n) le0"
  proof (cases n)
    case 0
    with e show ?thesis by (simp add: last_failure_def)
  next
    case (Suc m)
    from Suc.prems have "failed_attempt (w (i + n))" by simp
    then obtain e' where "connect_result (w (i + n)) = Connect_failed e'"
      by (auto simp: failed_attempt_def split: connect_reply.splits)
    with Suc show ?thesis by (simp add: last_failure_def)
  qed
  from IH e ra show ?case unfolding lf[symmetric] by simp
qed

text \<open>
  Claim C3. When the stream closes, every attempt to re-open it comes directly after a
  reachability probe, and at most the configured number of attempts is made. If the probe
  before an attempt finds the engine unreachable, \<open>_attempt_websocket_reconnect\<close> raises
  at once, without that attempt. If every attempt within the bound fails, it raises after
  exactly that many attempts, with the text of the last failure (of the initial error
  when the bound allows no attempt). If an attempt within the bound connects, it returns
  after that attempt, and the loop goes on to the next receive on the new connection;
  when it raises, the loop ends with that exception.
\<close>

theorem reconnect_policy:
  "probed (snd (attempt_websocket_reconnect w max_attempts initial_error))
   \<and> count_list (snd (attempt_websocket_reconnect w max_attempts initial_error)) Reconnect
       \<le> nat max_attempts
   \<and> (\<forall>k < nat max_attempts. (\<forall>j<k. failed_attempt (w j)) \<and> \<not> http_reachable (w k) \<longrightarrow>
         fst (attempt_websocket_reconnect w max_attempts initial_error)
           = Inl (Exn WebSocketConnectionClosedException
                   ''ComfyUI HTTP unreachable during websocket reconnect'')
         \<and> count_list (snd (attempt_websocket_reconnect w max_attempts initial_error)) Reconnect = k)
   \<and> ((\<forall>j < nat max_attempts. failed_attempt (w j)) \<longrightarrow>
         fst (attempt_websocket_reconnect w max_attempts initial_error)
           = Inl (Exn WebSocketConnectionClosedException
                   (''Connection closed and failed to reconnect. Last error: '' @
                    exn_str (last_failure w (nat max_attempts) initial_error)))
         \<and> count_list (snd (attempt_websocket_reconnect w max_attempts initial_error)) Reconnect
             = nat max_attempts)
   \<and> (\<forall>k < nat max_attempts. (\<forall>j<k. failed_attempt (w j)) \<and> http_reachable (w k)
           \<and> connect_result (w k) = Connected \<longrightarrow>
         fst (attempt_websocket_reconnect w max_attempts initial_error) = Inr ()
         \<and> count_list (snd (attempt_websocket_reconnect w max_attempts initial_error)) Reconnect
             = Suc k)
   \<and> (exn_cls e = WebSocketConnectionClosedException \<longrightarrow>
        (case attempt_websocket_reconnect w (websocket_reconnect_attempts E) e of
           (Inr u, acts) \<Rightarrow>
             track E pid (Recv_raise e w # rs) ws = after (Recv # acts) (track E pid rs True)
         | (Inl e', acts) \<Rightarrow>
             track E pid (Recv_raise e w # rs) ws = (Loop_raise e', False, Recv # acts)))"
proof (intro conjI allI impI)
  show "probed (snd (attempt_websocket_reconnect w max_attempts initial_error))"
    unfolding attempt_websocket_reconnect_def by (rule reconnect_from_probed)
  show "count_list (snd (attempt_websocket_reconnect w max_attempts initial_error)) Reconnect
       \<le> nat max_attempts"
    unfolding attempt_websocket_reconnect_def by (rule reconnect_from_bound)
next
  fix k assume k: "k < nat max_attempts"
    and h: "(\<forall>j<k. failed_attempt (w j)) \<and> \<not> http_reachable (w k)"
  from reconnect_from_unreachable[of k "nat max_attempts" w 0 max_attempts initial_error] k h
  have *: "fst (reconnect_from w max_attempts 0 (nat max_attempts) initial_error) =
           Inl (Exn WebSocketConnectionClosedException
                  ''ComfyUI HTTP unreachable during websocket reconnect'')
         \<and> count_list (snd (reconnect_from w max_attempts 0 (nat max_attempts) initial_error))
             Reconnect = k"
    by simp
  from * show "fst (attempt_websocket_reconnect w max_attempts initial_error)
           = Inl (Exn WebSocketConnectionClosedException
                   ''ComfyUI HTTP unreachable during websocket reconnect'')"
    unfolding attempt_websocket_reconnect_def by blast
  from * show "count_list (snd (attempt_websocket_reconnect w max_attempts initial_error)) Reconnect = k"
    unfolding attempt_websocket_reconnect_def by blast
next
  assume h: "\<forall>j < nat max_attempts. failed_attempt (w j)"
  from reconnect_from_exhausted[of "nat max_attempts" w 0 max_attempts initial_error] h
  have *: "fst (reconnect_from w max_attempts 0 (nat max_attempts) initial_error) =
           Inl (Exn WebSocketConnectionClosedException
                  (''Connection closed and failed to reconnect. Last error: '' @
                   exn_str (last_failure w (nat max_attempts) initial_error)))
         \<and> count_list (snd (reconnect_from w max_attempts 0 (nat max_attempts) initial_error))
             Reconnect = nat max_attempts"
    by simp
  from * show "fst (attempt_websocket_reconnect w max_attempts initial_error)
           = Inl (Exn WebSocketConnectionClosedException
                   (''Connection closed and failed to reconnect. Last error: '' @
                    exn_str (last_failure w (nat max_attempts) initial_error)))"
    unfolding attempt_websocket_reconnect_def by blast
  from * show "count_list (snd (attempt_websocket_reconnect w max_attempts initial_error)) Reconnect
             = nat max_attempts"
    unfolding attempt_websocket_reconnect_def by blast
next
  fix k assume k: "k < nat max_attempts"
    and h: "(\<forall>j<k. failed_attempt (w j)) \<and> http_reachable (w k) \<and> connect_result (w k) = Connected"
  from reconnect_from_success[of k "nat max_attempts" w 0 max_attempts initial_error] k h
  have *: "fst (reconnect_from w max_attempts 0 (nat max_attempts) initial_error) =
           Inr ()
         \<and> count_list (snd (reconnect_from w max_attempts 0 (nat max_attempts) initial_error))
             Reconnect = Suc k"
    by simp
  from * show "fst (attempt_websocket_reconnect w max_attempts initial_error) = Inr ()"
    unfolding attempt_websocket_reconnect_def by blast
  from * show "count_list (snd (attempt_websocket_reconnect w max_attempts initial_error)) Reconnect
             = Suc k"
    unfolding attempt_websocket_reconnect_def by blast
next
  assume c: "exn_cls e = WebSocketConnectionClosedException"
  obtain r acts where ra: "attempt_websocket_reconnect w (websocket_reconnect_attempts E) e = (r, acts)"
    by force
  show "case attempt_websocket_reconnect w (websocket_reconnect_attempts E) e of
           (Inr u, acts) \<Rightarrow>
             track E pid (Recv_raise e w # rs) ws = after (Recv # acts) (track E pid rs True)
         | (Inl e', acts) \<Rightarrow>
             track E pid (Recv_raise e w # rs) ws = (Loop_raise e', False, Recv # acts)"
    using c ra by (cases r) (simp_all add: receive_def attempts_of_def)
qed

lemma refusing_failed: "failed_attempt (refusing j)"
  by (simp add: failed_attempt_def refusing_def connect_error_caught_def is_os_error_def)

theorem reconnect_policy_witness:
  "fst (attempt_websocket_reconnect refusing 3 stream_closed)
     = Inl (Exn WebSocketConnectionClosedException
             ''Connection closed and failed to reconnect. Last error: refused'')
   \<and> count_list (snd (attempt_websocket_reconnect refusing 3 stream_closed)) Reconnect = 3
   \<and> fst (attempt_websocket_reconnect third_time 3 stream_closed) = Inr ()
   \<and> count_list (snd (attempt_websocket_reconnect third_time 3 stream_closed)) Reconnect = 3
   \<and> fst (attempt_websocket_reconnect engine_gone 3 stream_closed)
     = Inl (Exn WebSocketConnectionClosedException
             ''ComfyUI HTTP unreachable during websocket reconnect'')
   \<and> count_list (snd (attempt_websocket_reconnect engine_gone 3 stream_closed)) Reconnect = 1
   \<and> track (sample_env\<lparr>websocket_reconnect_attempts := 3\<rparr>) (JStr ''p1'')
         [Recv_raise stream_closed third_time, Recv_text ''done''] True
     = (Loop_exit True [], True,
        [Recv, Probe, Reconnect, Reconnect_delay, Probe, Reconnect, Reconnect_delay,
         Probe, Reconnect, Recv])"
proof -
  note p1 = reconnect_policy[of refusing 3 stream_closed stream_closed sample_env "JStr ''p1''" "[]" True]
  have a: "\<forall>j < nat 3. failed_attempt (refusing j)" by (simp add: refusing_failed)
  have l: "last_failure refusing (nat 3) stream_closed = Exn OSError ''refused''"
    by (simp add: last_failure_def refusing_def)
  from p1 a l have r1: "fst (attempt_websocket_reconnect refusing 3 stream_closed)
     = Inl (Exn WebSocketConnectionClosedException
             ''Connection closed and failed to reconnect. Last error: refused'')
   \<and> count_list (snd (attempt_websocket_reconnect refusing 3 stream_closed)) Reconnect = 3"
    by simp
  note p2 = reconnect_policy[of third_time 3 stream_closed stream_closed
      "sample_env\<lparr>websocket_reconnect_attempts := 3\<rparr>" "JStr ''p1''" "[Recv_text ''done'']" True]
  have b: "(\<forall>j<2. failed_attempt (third_time j)) \<and> http_reachable (third_time 2)
           \<and> connect_result (third_time 2) = Connected"
    by (simp add: third_time_def failed_attempt_def connect_error_caught_def is_os_error_def)
  from p2 b have r2: "fst (attempt_websocket_reconnect third_time 3 stream_closed) = Inr ()
   \<and> count_list (snd (attempt_websocket_reconnect third_time 3 stream_closed)) Reconnect = 3"
    by (auto dest!: spec[of _ 2])
  note p3 = reconnect_policy[of engine_gone 3 stream_closed stream_closed sample_env "JStr ''p1''" "[]" True]
  have c: "(\<forall>j<1. failed_attempt (engine_gone j)) \<and> \<not> http_reachable (engine_gone 1)"
    by (simp add: engine_gone_def failed_attempt_def connect_error_caught_def is_os_error_def)
  from p3 c have r3: "fst (attempt_websocket_reconnect engine_gone 3 stream_closed)
     = Inl (Exn WebSocketConnectionClosedException
             ''ComfyUI HTTP unreachable during websocket reconnect'')
   \<and> count_list (snd (attempt_websocket_reconnect engine_gone 3 stream_closed)) Reconnect = 1"
    by (auto dest!: spec[of _ 1])
  have acts: "attempt_websocket_reconnect third_time 3 stream_closed
     = (Inr (), [Probe, Reconnect, Reconnect_delay, Probe, Reconnect, Reconnect_delay,
                 Probe, Reconnect])"
    by (simp add: attempt_websocket_reconnect_def third_time_def stream_closed_def eval_nat_numeral
        connect_error_caught_def is_os_error_def)
  have fin: "track (sample_env\<lparr>websocket_reconnect_attempts := 3\<rparr>) (JStr ''p1'')
                [Recv_text ''done''] True = (Loop_exit True [], True, [Recv])"
    by (simp add: receive_def handle_message_def on_executing_def sample_env_def sample_texts_def)
  have cls: "exn_cls stream_closed = WebSocketConnectionClosedException" by (simp add: stream_closed_def)
  from p2 cls acts fin
  have r4: "track (sample_env\<lparr>websocket_reconnect_attempts := 3\<rparr>) (JStr ''p1'')
         [Recv_raise stream_closed third_time, Recv_text ''done''] True
     = (Loop_exit True [], True,
        [Recv, Probe, Reconnect, Reconnect_delay, Probe, Reconnect, Reconnect_delay,
         Probe, Reconnect, Recv])"
    by (simp add: sample_env_def)
  from r1 r2 r3 r4 show ?thesis by simp
qed

section \<open>Rejected submissions\<close>

lemma str_join_member:
  "y \<in> set ys \<Longrightarrow> \<exists>ps ss. str_join sep ys = ps @ y @ ss"
proof (induction sep ys rule: str_join.induct)
  case (1 sep)
  then show ?case by simp
next
  case (2 sep x)
  then have "str_join sep [x] = [] @ y @ []" by simp
  then show ?case by blast
next
  case (3 sep x z zs)
  show ?case
  proof (cases "y = x")
    case True
    then have "str_join sep (x # z # zs) = [] @ y @ (sep @ str_join sep (z # zs))" by simp
    then show ?thesis by blast
  next
    case False
    with 3 obtain ps ss where "str_join sep (z # zs) = ps @ y @ ss" by auto
    then have "str_join sep (x # z # zs) = (x @ sep @ ps) @ y @ ss" by simp
    then show ?thesis by blast
  qed
qed

lemma node_error_details_member:
  assumes "(error_type, error_msg) \<in> set errs"
  shows "''Node '' @ node_id @ '' ('' @ error_type @ ''): '' @ py_str E error_msg
           \<in> set (node_error_details E node_id (JDict errs))"
  using assms by (force simp: node_error_details_def)

lemma rejection_reason_string:
  assumes "\<forall>d m. map_of error_data ''error'' = Some (JDict d) \<and> map_of d ''message'' = Some m
            \<longrightarrow> (\<exists>s. m = JStr s)"
  shows "\<exists>s. rejection_reason E (JDict error_data) = Inr (JStr s)"
proof (cases "map_of error_data ''error''")
  case None
  then have "''error'' \<notin> set (map fst error_data)" by (simp add: map_of_eq_None_iff)
  then show ?thesis by (simp add: rejection_reason_def)
next
  case (Some error_info)
  then have "''error'' \<in> set (map fst error_data)"
    by (metis map_of_eq_None_iff option.distinct(1) set_map)
  then have *: "rejection_reason E (JDict error_data) =
      (case error_info of
              JDict d \<Rightarrow> py_get E error_info ''message'' (JStr ''Workflow validation failed'')
            | _ \<Rightarrow> Inr (JStr (py_str E error_info)))"
    using Some by (simp add: rejection_reason_def)
  show ?thesis
  proof (cases error_info)
    case (JDict d)
    show ?thesis
    proof (cases "map_of d ''message''")
      case None
      with * JDict show ?thesis by simp
    next
      case (Some m)
      with assms \<open>map_of error_data ''error'' = Some error_info\<close> JDict
      obtain s where "m = JStr s" by blast
      with * JDict Some show ?thesis by simp
    qed
  qed (use * in simp_all)
qed

text \<open>
  Claim C6. For every 400 reply whose body decodes to an object with a \<open>node_errors\<close> map
  (and whose \<open>error.message\<close>, when present, is a string), \<open>queue_workflow\<close> raises a
  \<open>ValueError\<close> whose text contains, for every component id, kind and message of the
  map, the line \<open>Node <id> (<kind>): <message>\<close>; the handler returns that text as its
  error. For \<open>{"12": {"type_error": "bad value"}}\<close> the text contains
  \<open>Node 12 (type_error): bad value\<close>.
\<close>

theorem rejection_preserves_node_errors:
  assumes body: "json_loads E body = Some (JDict error_data)"
    and nodes: "map_of error_data ''node_errors'' = Some (JDict node_errors)"
    and node: "(node_id, JDict errs) \<in> set node_errors"
    and entry: "(error_type, error_msg) \<in> set errs"
    and reason: "\<forall>d m. map_of error_data ''error'' = Some (JDict d) \<and> map_of d ''message'' = Some m
                  \<longrightarrow> (\<exists>s. m = JStr s)"
    and reply: "post_prompt E (JDict [(''prompt'', workflow), (''client_id'', JStr client_id)])
                  = Http_response 400 body"
  shows "\<exists>text. fst (queue_workflow E workflow client_id) = Inl (Exn ValueError text)
           \<and> sublist (''Node '' @ node_id @ '' ('' @ error_type @ ''): '' @ py_str E error_msg) text
           \<and> exception_result (Exn ValueError text) = JDict [(''error'', JStr text)]"
proof -
  let ?line = "''Node '' @ node_id @ '' ('' @ error_type @ ''): '' @ py_str E error_msg"
  let ?details = "concat (map (\<lambda>(node_id, node_error).
                     node_error_details E node_id node_error) node_errors)"
  let ?tail = "'':'' @ newline @ str_join newline (map (\<lambda>d. bullet @ '' '' @ d) ?details)"
  obtain s where s: "rejection_reason E (JDict error_data) = Inr (JStr s)"
    using rejection_reason_string[OF reason] by blast
  have mem: "?line \<in> set ?details"
    using node node_error_details_member[OF entry, of node_id E] by force
  have ne: "?details \<noteq> []"
  proof
    assume e: "?details = []"
    from mem show False unfolding e by simp
  qed
  have has: "''node_errors'' \<in> set (map fst error_data)"
    using nodes by (metis map_of_eq_None_iff option.distinct(1) set_map)
  have msg: "rejection_message E (JDict error_data) = Inr (JStr (s @ ?tail))"
    unfolding rejection_message_def using s has nodes ne
    by (simp add: py_iadd_str_def)
  have rej: "rejection E body = Exn ValueError (s @ ?tail)"
    using body msg by (simp add: rejection_def)
  have "bullet @ '' '' @ ?line \<in> set (map (\<lambda>d. bullet @ '' '' @ d) ?details)"
    unfolding set_map using mem by (rule imageI)
  from str_join_member[OF this, of newline] obtain ps ss where
    "str_join newline (map (\<lambda>d. bullet @ '' '' @ d) ?details) = ps @ (bullet @ '' '' @ ?line) @ ss"
    by blast
  then have "s @ ?tail = (s @ '':'' @ newline @ ps @ bullet @ '' '') @ ?line @ ss" by simp
  then have sub: "sublist ?line (s @ ?tail)" unfolding sublist_def by blast
  have q: "fst (queue_workflow E workflow client_id) = Inl (Exn ValueError (s @ ?tail))"
    using reply rej by (simp add: queue_workflow_def)
  have r: "exception_result (Exn ValueError (s @ ?tail)) = JDict [(''error'', JStr (s @ ?tail))]"
    by (simp add: exception_result_def is_websocket_exception_def is_value_error_def error_result_def)
  from q sub r show ?thesis by blast
qed

theorem rejection_preserves_node_errors_witness:
  "\<exists>text. fst (queue_workflow (sample_env\<lparr>post_prompt := (\<lambda>p. Http_response 400 ''rejected'')\<rparr>)
                  (JDict []) ''u-client'') = Inl (Exn ValueError text)
         \<and> sublist ''Node 12 (type_error): bad value'' text"
proof -
  let ?E = "sample_env\<lparr>post_prompt := (\<lambda>p. Http_response 400 ''rejected'')\<rparr>"
  let ?data = "[(''error'', JDict [(''message'', JStr ''Prompt outputs failed validation'')]),
                (''node_errors'', JDict [(''12'', JDict [(''type_error'', JStr ''bad value'')])])]"
  have body: "json_loads ?E ''rejected'' = Some (JDict ?data)"
    by (simp add: sample_env_def sample_texts_def)
  have nodes: "map_of ?data ''node_errors''
                 = Some (JDict [(''12'', JDict [(''type_error'', JStr ''bad value'')])])"
    by simp
  have node: "(''12'', JDict [(''type_error'', JStr ''bad value'')])
                \<in> set [(''12'', JDict [(''type_error'', JStr ''bad value'')])]" by simp
  have entry: "(''type_error'', JStr ''bad value'') \<in> set [(''type_error'', JStr ''bad value'')]"
    by simp
  have reason: "\<forall>d m. map_of ?data ''error'' = Some (JDict d) \<and> map_of d ''message'' = Some m
                  \<longrightarrow> (\<exists>s. m = JStr s)"
    by auto
  have reply: "post_prompt ?E (JDict [(''prompt'', JDict []), (''client_id'', JStr ''u-client'')])
                 = Http_response 400 ''rejected''"
    by (simp add: sample_env_def)
  from rejection_preserves_node_errors[OF body nodes node entry reason reply]
  show ?thesis by auto
qed

section \<open>Output collection\<close>















lemma py_eq_JStr: "py_eq a (JStr s) \<longleftrightarrow> a = JStr s"
  by (cases a) auto






lemma collect_cong:
  "(\<And>x. x \<in> set xs \<Longrightarrow> f x = g x) \<Longrightarrow> collect f xs = collect g xs"
  by (induction xs) simp_all










section \<open>Runs of the sample job\<close>

lemma check_server_first:
  assumes "server_poll E 0" and "0 < retries"
  shows "check_server E retries = (True, [Poll])"
proof -
  from assms(2) obtain n where "nat retries = Suc n" by (cases "nat retries") auto
  with assms(1) show ?thesis by (simp add: check_server_def)
qed

lemma splitext_samples:
  "splitext_ext ''/a.png'' = ''.png''" "splitext_ext ''/b.mp4'' = ''.mp4''"
  "splitext_ext ''a.png'' = ''.png''" "splitext_ext ''b.mp4'' = ''.mp4''"
  by (simp_all add: splitext_ext_def)

lemma sample_validate:
  "validate_input (sample_env\<lparr>recvs := rs\<rparr>) (JDict sample_request) = Inr (Inr sample_validated)"
  by (simp add: validate_input_def validate_fields_def validate_numeric_def convert_numeric_def
      adjust_dim_def sample_env_def sample_request_def sample_validated_def)

lemma sample_download:
  "download_inputs (sample_env\<lparr>recvs := rs\<rparr>) sample_validated (JStr ''j1'') {}
     = ((sample_filenames, None), sample_files,
        [Download ''http://h/a.png'', Download ''http://h/b.mp4''])"
  by (simp add: download_inputs_def download_inputs_async_def url_path_def
      download_file_async_def splitext_samples or_default_def input_path_def COMFY_INPUT_DIR_def
      sample_env_def sample_validated_def sample_filenames_def sample_files_def Let_def)

lemma sample_template:
  "load_workflow_template (sample_env\<lparr>recvs := rs\<rparr>) = Inr (JDict [])"
  by (simp add: load_workflow_template_def sample_env_def sample_texts_def)

lemma sample_transform:
  "transform_request_to_workflow (sample_env\<lparr>recvs := rs\<rparr>) sample_validated sample_filenames
     (JDict []) = Inr (JDict [])"
  by (simp add: transform_request_to_workflow_def sample_env_def sample_texts_def
      sample_validated_def)

lemma sample_submit:
  "submit (sample_env\<lparr>recvs := rs\<rparr>) (JDict []) = (Inr (JStr ''p1''), [Submit])"
  by (simp add: submit_def queue_workflow_def raise_for_status_def response_json_def
      sample_env_def sample_texts_def)

lemma sample_process_outputs:
  "process_outputs (sample_env\<lparr>recvs := rs\<rparr>) sample_outputs (JStr ''j1'')
     = (Inr ([sample_image], [sample_video], []), [View (JStr ''a.png''), View (JStr ''b.mp4'')])"
  by (simp add: process_outputs_def process_node_def output_set_def image_entry_def
      video_entry_def process_image_output_def process_video_output_def entry_fields_def
      get_file_data_def splitext_of_def video_file_ext_def format_to_ext_def
      sample_outputs_def sample_env_def sample_image_def sample_video_def)

lemma sample_collect:
  assumes "execution_done \<or> errors \<noteq> []"
  shows "collect_results (sample_env\<lparr>recvs := rs\<rparr>) (JStr ''p1'') (JStr ''j1'') execution_done errors
     = (Body_done [sample_image] [sample_video] errors,
        [History, View (JStr ''a.png''), View (JStr ''b.mp4'')])"
proof -
  have h: "get_history (sample_env\<lparr>recvs := rs\<rparr>) (JStr ''p1'')
             = (Inr (JDict [(''p1'', JDict [(''outputs'', sample_outputs)])]), [History])"
    by (simp add: get_history_def raise_for_status_def response_json_def sample_env_def
        sample_texts_def)
  have t: "py_truthy sample_outputs" by (simp add: sample_outputs_def)
  from assms show ?thesis
    by (auto simp: collect_results_def h t sample_process_outputs)
qed

lemma sample_cleanup:
  "cleanup_input_files (sample_env\<lparr>recvs := rs\<rparr>) sample_filenames sample_files
     = ({}, [Remove ''/comfyui/input/ref_j1.png'', Remove ''/comfyui/input/dance_j1.mp4''])"
  by (simp add: sample_filenames_def sample_files_def input_path_def COMFY_INPUT_DIR_def
      sample_env_def insert_Diff_if)

lemma sample_handler:
  assumes "track (sample_env\<lparr>recvs := rs\<rparr>) (JStr ''p1'') rs True
             = (Loop_exit execution_done errors, True, acts)"
    and "execution_done \<or> errors \<noteq> []"
  shows "handler (sample_env\<lparr>recvs := rs\<rparr>) sample_job {}
     = (Returns (build_response [sample_image] [sample_video] errors), {},
        [Poll, Download ''http://h/a.png'', Download ''http://h/b.mp4'', Load_template,
         Ws_connect, Submit] @ acts @
        [History, View (JStr ''a.png''), View (JStr ''b.mp4''), Ws_close,
         Remove ''/comfyui/input/ref_j1.png'', Remove ''/comfyui/input/dance_j1.mp4''])"
proof -
  let ?E = "sample_env\<lparr>recvs := rs\<rparr>"
  have c: "check_server ?E COMFY_API_AVAILABLE_MAX_RETRIES = (True, [Poll])"
    by (rule check_server_first)
       (simp_all add: sample_env_def COMFY_API_AVAILABLE_MAX_RETRIES_def)
  have conn: "ws_connect ?E = Connected" "recvs ?E = rs" by (simp_all add: sample_env_def)
  have r: "run_workflow ?E (JDict []) (JStr ''j1'')
             = (Body_done [sample_image] [sample_video] errors, True,
                Ws_connect # [Submit] @ acts @ [History, View (JStr ''a.png''), View (JStr ''b.mp4'')])"
    using assms by (simp add: run_workflow_def conn sample_submit sample_collect)
  have f: "finish ?E sample_filenames (Body_done [sample_image] [sample_video] errors) True sample_files
             = (Returns (build_response [sample_image] [sample_video] errors), {},
                [Ws_close, Remove ''/comfyui/input/ref_j1.png'', Remove ''/comfyui/input/dance_j1.mp4''])"
    by (simp add: finish_def sample_cleanup)
  have p: "process_job ?E sample_validated (JStr ''j1'') {}
     = (Returns (build_response [sample_image] [sample_video] errors), {},
        [Download ''http://h/a.png'', Download ''http://h/b.mp4'', Load_template,
         Ws_connect, Submit] @ acts @
        [History, View (JStr ''a.png''), View (JStr ''b.mp4''), Ws_close,
         Remove ''/comfyui/input/ref_j1.png'', Remove ''/comfyui/input/dance_j1.mp4''])"
    by (simp add: process_job_def sample_download sample_template sample_transform r f)
  show ?thesis
    by (simp add: handler_def sample_job_def sample_validate c p)
qed

lemma sample_env_recvs: "sample_env\<lparr>recvs := [Recv_text ''done'']\<rparr> = sample_env"
  by (simp add: sample_env_def)

lemma sample_track_done:
  "track (sample_env\<lparr>recvs := rs\<rparr>) (JStr ''p1'') [Recv_text ''done''] True
     = (Loop_exit True [], True, [Recv])"
  by (simp add: receive_def handle_message_def on_executing_def sample_env_def sample_texts_def)

lemma sample_track_failed:
  "track (sample_env\<lparr>recvs := rs\<rparr>) (JStr ''p1'') [Recv_text ''failed''] True
     = (Loop_exit False
          [''Workflow execution error: Node Type: KSampler, Node ID: 3, Message: out of memory''],
        True, [Recv])"
  by (simp add: receive_def handle_message_def on_execution_error_def execution_error_details_def
      sample_env_def sample_texts_def)

lemma sample_run:
  "handler sample_env sample_job {}
     = (Returns (JDict [(''status'', JStr ''success''), (''images'', JList [sample_image]),
                        (''videos'', JList [sample_video])]), {},
        [Poll, Download ''http://h/a.png'', Download ''http://h/b.mp4'', Load_template,
         Ws_connect, Submit, Recv, History, View (JStr ''a.png''), View (JStr ''b.mp4''), Ws_close,
         Remove ''/comfyui/input/ref_j1.png'', Remove ''/comfyui/input/dance_j1.mp4''])"
  using sample_handler[OF sample_track_done[of "[Recv_text ''done'']"]]
  by (simp add: sample_env_recvs build_response_def)

section \<open>A failed download\<close>

lemma str_int_404: "str_int 404 = ''404''"
  by (simp add: str_int_def str_nat.simps digit_char_def)

lemma download_video_missing:
  "download_inputs video_missing_env sample_validated (JStr ''j1'') {}
     = (([], Some ''HTTP 404 downloading dance_video''),
        {''/comfyui/input/ref_j1.png''},
        [Download ''http://h/a.png'', Download ''http://h/b.mp4''])"
  by (simp add: download_inputs_def download_inputs_async_def url_path_def
      download_file_async_def splitext_samples or_default_def input_path_def COMFY_INPUT_DIR_def
      str_int_404 video_missing_env_def sample_env_def sample_validated_def)

lemma validate_video_missing:
  "validate_input video_missing_env (JDict sample_request) = Inr (Inr sample_validated)"
  by (simp add: validate_input_def validate_fields_def validate_numeric_def convert_numeric_def
      adjust_dim_def video_missing_env_def sample_env_def sample_request_def sample_validated_def)

text \<open>
  Claim C1, at a job whose reference image downloads and whose video source answers 404:
  the handler returns the download error, the reference image it wrote is still in the
  input directory, and no removal was attempted.
\<close>

theorem partial_download_leaves_file:
  "handler video_missing_env sample_job {}
     = (Returns (JDict [(''error'', JStr ''HTTP 404 downloading dance_video'')]),
        {''/comfyui/input/ref_j1.png''},
        [Poll, Download ''http://h/a.png'', Download ''http://h/b.mp4''])"
proof -
  have c: "check_server video_missing_env COMFY_API_AVAILABLE_MAX_RETRIES = (True, [Poll])"
    by (rule check_server_first)
       (simp_all add: video_missing_env_def sample_env_def COMFY_API_AVAILABLE_MAX_RETRIES_def)
  have p: "process_job video_missing_env sample_validated (JStr ''j1'') {}
     = (Returns (JDict [(''error'', JStr ''HTTP 404 downloading dance_video'')]),
        {''/comfyui/input/ref_j1.png''},
        [Download ''http://h/a.png'', Download ''http://h/b.mp4''])"
    by (simp add: process_job_def download_video_missing error_result_def)
  show ?thesis
    by (simp add: handler_def sample_job_def validate_video_missing c p)
qed

section \<open>The order of the stages\<close>

lemma phase_Nil: "phase lo hi []"
  by (simp add: phase_def)

lemma phase_const: "(\<forall>a \<in> set acts. stage a = k) \<Longrightarrow> phase k k acts"
  unfolding phase_def by (induction acts) auto

lemma phase_mono: "phase lo hi acts \<Longrightarrow> lo' \<le> lo \<Longrightarrow> hi \<le> hi' \<Longrightarrow> phase lo' hi' acts"
  unfolding phase_def by fastforce

lemma phase_append:
  assumes "phase l1 h1 xs" and "phase l2 h2 ys" and "h1 \<le> l2"
  shows "phase (min l1 l2) (max h1 h2) (xs @ ys)"
  using assms unfolding phase_def
  by (fastforce simp: sorted_append)

lemma phase_append':
  assumes "phase l1 h1 xs" and "phase l2 h2 ys" and "h1 \<le> l2" and "lo \<le> l1" and "lo \<le> l2"
    and "h1 \<le> hi" and "h2 \<le> hi"
  shows "phase lo hi (xs @ ys)"
  using assms unfolding phase_def
  by (fastforce simp: sorted_append)

lemma check_server_from_stage: "\<forall>a \<in> set (snd (check_server_from E i n)). stage a = 0"
  by (induction n arbitrary: i) (auto simp: split_beta)

lemma check_server_phase: "phase 0 0 (snd (check_server E retries))"
  unfolding check_server_def by (rule phase_const[OF check_server_from_stage])

lemma download_inputs_stage:
  "\<forall>a \<in> set (snd (snd (download_inputs E v job_id fs))). stage a = 1"
  unfolding download_inputs_def download_inputs_async_def
  by (auto simp: Let_def split: sum.splits prod.splits option.splits if_splits)

lemma cleanup_stage: "\<forall>a \<in> set (snd (cleanup_input_files E filenames fs)). stage a = 7"
proof (induction filenames arbitrary: fs)
  case Nil
  show ?case by simp
next
  case (Cons f filenames)
  obtain file_type filename where f: "f = (file_type, filename)" by (cases f) auto
  show ?case
  proof (cases "filename \<noteq> [] \<and> input_path filename \<in> fs")
    case True
    obtain fs' acts where c: "cleanup_input_files E filenames
        (if remove_ok E (input_path filename) then fs - {input_path filename} else fs) = (fs', acts)"
      by force
    with Cons.IH[of "if remove_ok E (input_path filename) then fs - {input_path filename} else fs"]
    have "\<forall>a \<in> set acts. stage a = 7" by simp
    with True c f show ?thesis by simp
  next
    case False
    with Cons.IH[of fs] f show ?thesis by auto
  qed
qed

lemma reconnect_from_stage: "\<forall>a \<in> set (snd (reconnect_from w mx i n le0)). stage a = 5"
  by (induction n arbitrary: i le0) (auto simp: split_beta split: connect_reply.splits)

lemma track_stage: "\<forall>a \<in> set (snd (snd (track E pid rs ws))). stage a = 5"
proof (induction rs arbitrary: ws)
  case Nil
  show ?case by simp
next
  case (Cons r rs)
  have IH: "\<forall>a \<in> set (snd (snd (track E pid rs ws'))). stage a = 5" for ws'
    by (rule Cons.IH)
  have aft: "\<forall>a \<in> set (snd (snd (after acts (track E pid rs ws')))). stage a = 5"
    if "\<forall>a \<in> set acts. stage a = 5" for acts ws'
    using that IH[of ws'] by (cases "track E pid rs ws'") auto
  have rc: "\<forall>a \<in> set (snd (attempt_websocket_reconnect w mx e)). stage a = 5" for w mx e
    unfolding attempt_websocket_reconnect_def by (rule reconnect_from_stage)
  show ?case
  proof (cases "receive E pid r")
    case (Inr v)
    then show ?thesis using aft[of "[Recv]"] by (cases v) simp_all
  next
    case (Inl e)
    obtain res acts where ra:
      "attempt_websocket_reconnect (attempts_of r) (websocket_reconnect_attempts E) e = (res, acts)"
      by force
    with rc[of "attempts_of r" "websocket_reconnect_attempts E" e]
    have acts: "\<forall>a \<in> set acts. stage a = 5" by simp
    then have "\<forall>a \<in> set (Recv # acts). stage a = 5" by simp
    from aft[OF this] acts Inl ra aft[of "[Recv]"] show ?thesis
      by (cases res) simp_all
  qed
qed

lemma io_then_stage:
  assumes "\<forall>a \<in> set (snd m). stage a = k" and "\<And>x. \<forall>a \<in> set (snd (f x)). stage a = k"
  shows "\<forall>a \<in> set (snd (io_then m f)). stage a = k"
proof (cases m)
  case (Pair r acts)
  show ?thesis
  proof (cases r)
    case (Inl e)
    with Pair assms(1) show ?thesis by simp
  next
    case (Inr x)
    with Pair assms(1) assms(2)[of x] show ?thesis by (cases "f x") auto
  qed
qed

lemma collect_stage:
  assumes "\<And>x. \<forall>a \<in> set (snd (f x)). stage a = k"
  shows "\<forall>a \<in> set (snd (collect f xs)). stage a = k"
proof (induction xs)
  case Nil
  show ?case by simp
next
  case (Cons x xs)
  show ?case
    unfolding collect.simps
    by (rule io_then_stage[OF assms]) (rule io_then_stage[OF Cons.IH], simp)
qed

lemma process_image_output_stage:
  "\<forall>a \<in> set (snd (process_image_output E info job_id)). stage a = 6"
  unfolding process_image_output_def
  by (auto split: sum.splits prod.splits option.splits upload_reply.splits)

lemma process_video_output_stage:
  "\<forall>a \<in> set (snd (process_video_output E info job_id)). stage a = 6"
  unfolding process_video_output_def
  by (auto split: sum.splits prod.splits option.splits upload_reply.splits)

lemma image_entry_stage: "\<forall>a \<in> set (snd (image_entry E node_id job_id info)). stage a = 6"
  unfolding image_entry_def
  by (rule io_then_stage[OF process_image_output_stage]) (simp split: option.splits)

lemma video_entry_stage: "\<forall>a \<in> set (snd (video_entry E node_id job_id info)). stage a = 6"
  unfolding video_entry_def
  by (rule io_then_stage[OF process_video_output_stage]) (simp split: option.splits)

lemma output_set_stage:
  assumes "\<And>x. \<forall>a \<in> set (snd (entry x)). stage a = 6"
  shows "\<forall>a \<in> set (snd (output_set E node_output key entry)). stage a = 6"
  unfolding output_set_def
proof (rule io_then_stage)
  show "\<forall>a \<in> set (snd (py_contains E node_output (JStr key), [])). stage a = 6" by simp
next
  fix present
  have "\<forall>a \<in> set (snd (io_then (and_then (py_index E node_output key) (py_iter E), [])
                                (collect entry))). stage a = 6"
    by (rule io_then_stage) (simp, rule collect_stage[OF assms])
  then show "\<forall>a \<in> set (snd (if present
                 then io_then (and_then (py_index E node_output key) (py_iter E), []) (collect entry)
                 else (Inr ([], [], []), []))). stage a = 6"
    by simp
qed

lemma process_node_stage: "\<forall>a \<in> set (snd (process_node E job_id node)). stage a = 6"
proof (cases node)
  case (Pair node_id node_output)
  show ?thesis
    unfolding Pair process_node_def prod.case
    apply (rule io_then_stage[OF output_set_stage[OF image_entry_stage]])
    apply (rule io_then_stage[OF output_set_stage[OF video_entry_stage]])
    apply (rule io_then_stage)
     apply simp_all
    done
qed

lemma process_outputs_stage:
  "\<forall>a \<in> set (snd (process_outputs E outputs job_id)). stage a = 6"
  unfolding process_outputs_def
  by (rule io_then_stage) (simp, rule collect_stage[OF process_node_stage])

lemma get_history_acts: "snd (get_history E prompt_id) = [History]"
  by (simp add: get_history_def split: http_reply.splits)

lemma collect_results_stage:
  "\<forall>a \<in> set (snd (collect_results E prompt_id job_id execution_done errors)). stage a = 6"
proof -
  obtain h ha where h: "get_history E prompt_id = (h, ha)" by force
  with get_history_acts[of E prompt_id] have ha: "ha = [History]" by simp
  have po: "stage a = 6" if "process_outputs E outputs job_id = (r, acts)" "a \<in> set acts"
    for outputs r acts a
    using process_outputs_stage[of E outputs job_id] that by simp
  show ?thesis
    unfolding collect_results_def h ha
    by (auto simp: Let_def split: sum.splits prod.splits if_splits dest: po)
qed

lemma submit_acts: "snd (submit E workflow) = [Submit]"
  by (simp add: submit_def queue_workflow_def split: http_reply.splits sum.splits prod.splits)

lemma run_workflow_phase: "phase 3 6 (snd (snd (run_workflow E workflow job_id)))"
proof (cases "ws_connect E")
  case (Connect_failed e)
  then show ?thesis by (simp add: run_workflow_def phase_def)
next
  case Connected
  obtain s sa where s: "submit E workflow = (s, sa)" by force
  with submit_acts[of E workflow] have sa: "sa = [Submit]" by simp
  show ?thesis
  proof (cases s)
    case (Inl e)
    with Connected s sa show ?thesis by (simp add: run_workflow_def phase_def)
  next
    case (Inr prompt_id)
    obtain t ws ta where t: "track E prompt_id (recvs E) True = (t, ws, ta)"
      by (cases "track E prompt_id (recvs E) True") auto
    with track_stage[of E prompt_id "recvs E" True] have ta: "\<forall>a \<in> set ta. stage a = 5" by simp
    have "phase 3 4 [Ws_connect, Submit]" by (simp add: phase_def)
    from phase_append'[OF this phase_const[OF ta], of 3 5]
    have head: "phase 3 5 (Ws_connect # [Submit] @ ta)" by simp
    show ?thesis
    proof (cases t)
      case (Loop_exit execution_done errors)
      obtain b ca where c: "collect_results E prompt_id job_id execution_done errors = (b, ca)"
        by force
      with collect_results_stage[of E prompt_id job_id execution_done errors]
      have "phase 6 6 ca" by (simp add: phase_const)
      from phase_append'[OF head this, of 3 6]
      have "phase 3 6 ((Ws_connect # [Submit] @ ta) @ ca)" by simp
      with Connected s sa Inr t Loop_exit c show ?thesis by (simp add: run_workflow_def)
    next
      case (Loop_raise e)
      with Connected s sa Inr t phase_mono[OF head, of 3 6] show ?thesis
        by (simp add: run_workflow_def)
    next
      case Loop_waiting
      with Connected s sa Inr t phase_mono[OF head, of 3 6] show ?thesis
        by (simp add: run_workflow_def)
    qed
  qed
qed

lemma finish_stage: "\<forall>a \<in> set (snd (snd (finish E filenames b ws fs))). stage a = 7"
proof -
  have c: "\<forall>a \<in> set (snd (cleanup_input_files E filenames fs')). stage a = 7" for fs'
    by (rule cleanup_stage)
  show ?thesis
  proof (cases b)
    case (Body_raise e)
    obtain fs1 a1 where c1: "cleanup_input_files E filenames fs = (fs1, a1)" by force
    obtain fs2 a2 where c2: "cleanup_input_files E filenames fs1 = (fs2, a2)" by force
    from c[of fs] c1 c[of fs1] c2 Body_raise show ?thesis by (auto simp: finish_def)
  next
    case (Body_return j)
    obtain fs1 a1 where c1: "cleanup_input_files E filenames fs = (fs1, a1)" by force
    from c[of fs] c1 Body_return show ?thesis by (auto simp: finish_def)
  next
    case (Body_done i v e)
    obtain fs1 a1 where c1: "cleanup_input_files E filenames fs = (fs1, a1)" by force
    from c[of fs] c1 Body_done show ?thesis by (auto simp: finish_def)
  next
    case Body_waiting
    then show ?thesis by (simp add: finish_def)
  qed
qed

lemma process_job_phase: "phase 1 7 (snd (snd (process_job E v job_id fs)))"
proof -
  obtain filenames err fs1 a1 where d: "download_inputs E v job_id fs = ((filenames, err), fs1, a1)"
    by (metis prod.exhaust)
  with download_inputs_stage[of E v job_id fs] have a1: "phase 1 1 a1" by (simp add: phase_const)
  have cl: "phase 7 7 (snd (cleanup_input_files E filenames fs1))"
    by (rule phase_const[OF cleanup_stage])
  have lt: "phase 2 2 [Load_template]" by (simp add: phase_def)
  show ?thesis
  proof (cases "error_text err \<noteq> []")
    case True
    with d phase_mono[OF a1, of 1 7] show ?thesis by (simp add: process_job_def)
  next
    case False
    show ?thesis
    proof (cases "load_workflow_template E")
      case (Inl m)
      obtain fs2 a2 where c: "cleanup_input_files E filenames fs1 = (fs2, a2)" by force
      with cl have "phase 7 7 a2" by simp
      from phase_append'[OF lt this, of 2 7] have "phase 2 7 ([Load_template] @ a2)" by simp
      from phase_append'[OF a1 this, of 1 7] d False Inl c show ?thesis
        by (simp add: process_job_def)
    next
      case (Inr template)
      show ?thesis
      proof (cases "transform_request_to_workflow E v filenames template")
        case (Inl e)
        obtain fs2 a2 where c: "cleanup_input_files E filenames fs1 = (fs2, a2)" by force
        with cl have "phase 7 7 a2" by simp
        from phase_append'[OF lt this, of 2 7] have "phase 2 7 ([Load_template] @ a2)" by simp
        from phase_append'[OF a1 this, of 1 7] d False Inr Inl c show ?thesis
          by (simp add: process_job_def)
      next
        case workflow: (Inr workflow)
        obtain b ws a3 where r: "run_workflow E workflow job_id = (b, ws, a3)"
          by (metis prod.exhaust)
        with run_workflow_phase[of E workflow job_id] have a3: "phase 3 6 a3" by simp
        obtain res fs2 a4 where f: "finish E filenames b ws fs1 = (res, fs2, a4)"
          by (metis prod.exhaust)
        with finish_stage[of E filenames b ws fs1] have a4: "phase 7 7 a4" by (simp add: phase_const)
        from phase_append'[OF a3 a4, of 3 7] have "phase 3 7 (a3 @ a4)" by simp
        from phase_append'[OF lt this, of 2 7] have "phase 2 7 ([Load_template] @ a3 @ a4)" by simp
        from phase_append'[OF a1 this, of 1 7] d False Inr workflow r f show ?thesis
          by (simp add: process_job_def)
      qed
    qed
  qed
qed

text \<open>
  Claim C9, as amended. For every job, the handler's calls are made in stage order:
  liveness polls, then input downloads, then the template load, the stream connect and
  the submission, then execution tracking, then output collection, then the closing of
  the stream and the removal of the input files. So the liveness check comes before
  input acquisition, and submission after it; when the liveness check fails, nothing but
  liveness polls is made.
\<close>

theorem handler_stage_order:
  "sorted (map stage (snd (snd (handler E job fs))))
   \<and> (\<not> fst (check_server E COMFY_API_AVAILABLE_MAX_RETRIES) \<longrightarrow>
        (\<forall>a \<in> set (snd (snd (handler E job fs))). stage a = 0))"
proof -
  let ?pre = "and_then (py_get E job ''input'' (JDict [])) (\<lambda>job_input.
           and_then (py_get E job ''id'' (JStr (uuid_job E))) (\<lambda>job_id.
           and_then (validate_input E job_input) (\<lambda>v. Inr (job_id, v))))"
  obtain ok a0 where c: "check_server E COMFY_API_AVAILABLE_MAX_RETRIES = (ok, a0)" by force
  with check_server_phase[of E COMFY_API_AVAILABLE_MAX_RETRIES] have a0: "phase 0 0 a0" by simp
  have "phase 0 7 (snd (snd (handler E job fs)))
        \<and> (\<not> ok \<longrightarrow> (\<forall>a \<in> set (snd (snd (handler E job fs))). stage a = 0))"
  proof (cases ?pre)
    case (Inl e)
    then show ?thesis by (simp add: handler_def phase_def)
  next
    case (Inr x)
    obtain job_id v where x: "x = (job_id, v)" by (cases x) auto
    show ?thesis
    proof (cases v)
      case (Inl error_message)
      with Inr x show ?thesis by (simp add: handler_def phase_def)
    next
      case validated: (Inr validated_data)
      show ?thesis
      proof (cases ok)
        case False
        with Inr x validated c a0 phase_mono[OF a0, of 0 7] show ?thesis
          by (simp add: handler_def phase_def)
      next
        case True
        obtain r fs' a where p: "process_job E validated_data job_id fs = (r, fs', a)"
          by (metis prod.exhaust)
        with process_job_phase[of E validated_data job_id fs] have "phase 1 7 a" by simp
        from phase_append'[OF a0 this, of 0 7] have "phase 0 7 (a0 @ a)" by simp
        with Inr x validated c True p show ?thesis by (simp add: handler_def)
      qed
    qed
  qed
  with c show ?thesis by (simp add: phase_def)
qed

theorem handler_stage_order_witness:
  "sorted (map stage (snd (snd (handler sample_env sample_job {}))))
   \<and> fst (check_server sample_env COMFY_API_AVAILABLE_MAX_RETRIES)
   \<and> map stage (snd (snd (handler sample_env sample_job {})))
       = [0, 1, 1, 2, 3, 4, 5, 6, 6, 6, 7, 7, 7]"
proof -
  have c: "check_server sample_env COMFY_API_AVAILABLE_MAX_RETRIES = (True, [Poll])"
    by (rule check_server_first)
       (simp_all add: sample_env_def COMFY_API_AVAILABLE_MAX_RETRIES_def)
  from handler_stage_order[of sample_env sample_job "{}"] c
  show ?thesis by (simp add: sample_run)
qed

text \<open>
  Claim C9 as stated has input acquisition first. In the run of the sample job the first
  call is a liveness poll, before any download.
\<close>

theorem liveness_check_before_acquisition:
  "snd (snd (handler sample_env sample_job {}))
     = [Poll, Download ''http://h/a.png'', Download ''http://h/b.mp4'', Load_template,
        Ws_connect, Submit, Recv, History, View (JStr ''a.png''), View (JStr ''b.mp4''), Ws_close,
        Remove ''/comfyui/input/ref_j1.png'', Remove ''/comfyui/input/dance_j1.mp4'']
   \<and> \<not> acquisition_first (snd (snd (handler sample_env sample_job {})))"
proof -
  have "\<not> acquisition_first (Poll # acts)" for acts
    by (auto simp: acquisition_first_def intro!: exI[of _ 0])
  then show ?thesis by (simp add: sample_run)
qed

section \<open>Execution errors\<close>

lemma map_of_dict_set:
  "map_of (dict_set k v kvs) k' = (if k' = k then Some v else map_of kvs k')"
  by (induction kvs) auto

lemma receive_execution_error:
  assumes "json_loads E out = Some (JDict message)"
    and "map_of message ''type'' = Some (JStr ''execution_error'')"
    and "map_of message ''data'' = Some (JDict data)"
    and "map_of data ''prompt_id'' = Some p" and "py_eq p prompt_id"
  shows "receive E prompt_id (Recv_text out) = Inr (Execution_failed (execution_error_entry E data))"
  using assms
  by (simp add: receive_def handle_message_def on_execution_error_def execution_error_entry_def
      execution_error_details_def field_of_def)

lemma collect_results_after_error:
  assumes "errors \<noteq> []"
  shows "case fst (collect_results E prompt_id job_id False errors) of
           Body_done images videos errors' \<Rightarrow> \<exists>rest. errors' = errors @ rest
         | Body_return j \<Rightarrow>
             j = JDict [(''error'', JStr ''Job processing failed''),
                        (''details'', JList (map JStr (errors @
                            [''Prompt ID '' @ py_str E prompt_id @ '' not found in history''])))]
         | Body_raise e \<Rightarrow> True
         | Body_waiting \<Rightarrow> False"
  using assms unfolding collect_results_def
  by (auto simp: Let_def failed_result_def split: sum.splits prod.splits if_splits)

text \<open>
  Claim C2, as amended. When an \<open>execution_error\<close> frame matching the job id is received,
  the loop ends at that frame with the frame's component kind, id and message as its one
  error entry, and the handler goes on to retrieve the manifest and collect the outputs.
  If that raises, the result is the error of the exception. If the job is not in the
  manifest, the result is the failure \<open>Job processing failed\<close> whose details start with
  the entry. Otherwise the entry is the first of the error entries: with no artifact
  collected the result is the failure \<open>Job processing failed\<close> with these entries as
  details, and with at least one artifact it has status \<open>success\<close> and lists the entries
  under \<open>errors\<close>.
\<close>

theorem execution_error_outcome:
  assumes "json_loads E out = Some (JDict message)"
    and "map_of message ''type'' = Some (JStr ''execution_error'')"
    and "map_of message ''data'' = Some (JDict data)"
    and "map_of data ''prompt_id'' = Some p" and "py_eq p prompt_id"
  shows "track E prompt_id (Recv_text out # rs) ws
           = (Loop_exit False [execution_error_entry E data], ws, [Recv])
       \<and> (case fst (collect_results E prompt_id job_id False [execution_error_entry E data]) of
            Body_done images videos errors \<Rightarrow>
              (\<exists>rest. errors = execution_error_entry E data # rest)
              \<and> fst (finish E filenames (Body_done images videos errors) ws fs)
                  = Returns (build_response images videos errors)
              \<and> (images = [] \<and> videos = [] \<longrightarrow>
                    build_response images videos errors
                      = JDict [(''error'', JStr ''Job processing failed''),
                               (''details'', JList (map JStr errors))])
              \<and> (images \<noteq> [] \<or> videos \<noteq> [] \<longrightarrow>
                    (\<exists>r. build_response images videos errors = JDict r
                        \<and> map_of r ''status'' = Some (JStr ''success'')
                        \<and> map_of r ''errors'' = Some (JList (map JStr errors))))
          | Body_return j \<Rightarrow>
              j = JDict [(''error'', JStr ''Job processing failed''),
                         (''details'', JList [JStr (execution_error_entry E data),
                            JStr (''Prompt ID '' @ py_str E prompt_id @ '' not found in history'')])]
              \<and> fst (finish E filenames (Body_return j) ws fs) = Returns j
          | Body_raise e \<Rightarrow>
              fst (finish E filenames (Body_raise e) ws fs) = Returns (exception_result e)
          | Body_waiting \<Rightarrow> False)"
proof
  show "track E prompt_id (Recv_text out # rs) ws
           = (Loop_exit False [execution_error_entry E data], ws, [Recv])"
    using receive_execution_error[OF assms] by simp
next
  let ?d = "execution_error_entry E data"
  let ?b = "fst (collect_results E prompt_id job_id False [?d])"
  have c: "case ?b of
           Body_done images videos errors' \<Rightarrow> \<exists>rest. errors' = [?d] @ rest
         | Body_return j \<Rightarrow>
             j = JDict [(''error'', JStr ''Job processing failed''),
                        (''details'', JList (map JStr ([?d] @
                            [''Prompt ID '' @ py_str E prompt_id @ '' not found in history''])))]
         | Body_raise e \<Rightarrow> True
         | Body_waiting \<Rightarrow> False"
    by (rule collect_results_after_error) simp
  show "case ?b of
            Body_done images videos errors \<Rightarrow>
              (\<exists>rest. errors = ?d # rest)
              \<and> fst (finish E filenames (Body_done images videos errors) ws fs)
                  = Returns (build_response images videos errors)
              \<and> (images = [] \<and> videos = [] \<longrightarrow>
                    build_response images videos errors
                      = JDict [(''error'', JStr ''Job processing failed''),
                               (''details'', JList (map JStr errors))])
              \<and> (images \<noteq> [] \<or> videos \<noteq> [] \<longrightarrow>
                    (\<exists>r. build_response images videos errors = JDict r
                        \<and> map_of r ''status'' = Some (JStr ''success'')
                        \<and> map_of r ''errors'' = Some (JList (map JStr errors))))
          | Body_return j \<Rightarrow>
              j = JDict [(''error'', JStr ''Job processing failed''),
                         (''details'', JList [JStr ?d,
                            JStr (''Prompt ID '' @ py_str E prompt_id @ '' not found in history'')])]
              \<and> fst (finish E filenames (Body_return j) ws fs) = Returns j
          | Body_raise e \<Rightarrow>
              fst (finish E filenames (Body_raise e) ws fs) = Returns (exception_result e)
          | Body_waiting \<Rightarrow> False"
  proof (cases ?b)
    case (Body_done images videos errors)
    with c obtain rest where e: "errors = ?d # rest" by auto
    have f: "fst (finish E filenames (Body_done images videos errors) ws fs)
                  = Returns (build_response images videos errors)"
      by (simp add: finish_def split: prod.splits)
    have n: "images = [] \<and> videos = [] \<longrightarrow>
                    build_response images videos errors
                      = JDict [(''error'', JStr ''Job processing failed''),
                               (''details'', JList (map JStr errors))]"
      using e by (simp add: build_response_def failed_result_def)
    have s: "images \<noteq> [] \<or> videos \<noteq> [] \<longrightarrow>
                    (\<exists>r. build_response images videos errors = JDict r
                        \<and> map_of r ''status'' = Some (JStr ''success'')
                        \<and> map_of r ''errors'' = Some (JList (map JStr errors)))"
      using e by (auto simp: build_response_def Let_def map_of_dict_set)
    from Body_done e f n s show ?thesis by simp
  next
    case (Body_return j)
    with c show ?thesis by (simp add: finish_def split: prod.splits)
  next
    case (Body_raise e)
    then show ?thesis by (simp add: finish_def split: prod.splits)
  next
    case Body_waiting
    with c show ?thesis by simp
  qed
qed

theorem execution_error_outcome_witness:
  "track (sample_env\<lparr>recvs := [Recv_text ''failed'']\<rparr>) (JStr ''p1'') [Recv_text ''failed''] True
     = (Loop_exit False
          [''Workflow execution error: Node Type: KSampler, Node ID: 3, Message: out of memory''],
        True, [Recv])
   \<and> fst (collect_results (sample_env\<lparr>recvs := [Recv_text ''failed'']\<rparr>) (JStr ''p1'') (JStr ''j1'')
          False [''Workflow execution error: Node Type: KSampler, Node ID: 3, Message: out of memory''])
     = Body_done [sample_image] [sample_video]
         [''Workflow execution error: Node Type: KSampler, Node ID: 3, Message: out of memory'']"
proof -
  let ?E = "sample_env\<lparr>recvs := [Recv_text ''failed'']\<rparr>"
  let ?data = "[(''prompt_id'', JStr ''p1''), (''node_type'', JStr ''KSampler''),
                (''node_id'', JStr ''3''), (''exception_message'', JStr ''out of memory'')]"
  let ?message = "[(''type'', JStr ''execution_error''), (''data'', JDict ?data)]"
  have 1: "json_loads ?E ''failed'' = Some (JDict ?message)"
    by (simp add: sample_env_def sample_texts_def)
  have 2: "map_of ?message ''type'' = Some (JStr ''execution_error'')" by simp
  have 3: "map_of ?message ''data'' = Some (JDict ?data)" by simp
  have 4: "map_of ?data ''prompt_id'' = Some (JStr ''p1'')" by simp
  have 5: "py_eq (JStr ''p1'') (JStr ''p1'')" by simp
  have e: "execution_error_entry ?E ?data
             = ''Workflow execution error: Node Type: KSampler, Node ID: 3, Message: out of memory''"
    by (simp add: execution_error_entry_def field_of_def)
  from execution_error_outcome[OF 1 2 3 4 5, where rs = "[]" and ws = True]
  have "track ?E (JStr ''p1'') [Recv_text ''failed''] True
          = (Loop_exit False [execution_error_entry ?E ?data], True, [Recv])" by blast
  with e sample_collect[of False "[''Workflow execution error: Node Type: KSampler, Node ID: 3, Message: out of memory'']" "[Recv_text ''failed'']"]
  show ?thesis by simp
qed

text \<open>
  Claim C2 as stated has every such run end in a failure. In the run of the sample job
  whose one frame is a matching \<open>execution_error\<close>, the manifest still lists an image and
  a video, both are collected, and the result has status \<open>success\<close> with the entry under
  \<open>errors\<close>.
\<close>

theorem execution_error_with_outputs:
  "handler (sample_env\<lparr>recvs := [Recv_text ''failed'']\<rparr>) sample_job {}
     = (Returns (JDict [(''status'', JStr ''success''), (''images'', JList [sample_image]),
                        (''videos'', JList [sample_video]),
                        (''errors'', JList [JStr ''Workflow execution error: Node Type: KSampler, Node ID: 3, Message: out of memory''])]),
        {},
        [Poll, Download ''http://h/a.png'', Download ''http://h/b.mp4'', Load_template,
         Ws_connect, Submit, Recv, History, View (JStr ''a.png''), View (JStr ''b.mp4''), Ws_close,
         Remove ''/comfyui/input/ref_j1.png'', Remove ''/comfyui/input/dance_j1.mp4''])"
  using sample_handler[OF sample_track_failed[of "[Recv_text ''failed'']"]]
  by (simp add: build_response_def)

end
